theory Spec2Isabelle
  imports
    Main
    "HOL-Library.Char_ord"
    "HOL-Library.List_Lexorder"
    "HOL-Library.Product_Lexorder"
    "HOL-Library.AList"
begin

section \<open>Strings and bytes\<close>

text \<open>
  A Python \<^verbatim>\<open>str\<close> is represented by the bytes of its UTF-8 encoding (\<^typ>\<open>char\<close>
  is a byte), a surrogate code point being written as the three bytes its number takes
  in that scheme (\<^verbatim>\<open>ED A0 80\<close> for U+D800; Python's \<^verbatim>\<open>surrogatepass\<close> form), so
  that every \<^verbatim>\<open>str\<close> has one representation. \<open>utf8_valid\<close> is the strict UTF-8
  decoder of CPython: no overlong forms, no surrogates, nothing above U+10FFFF. A
  string holds a surrogate exactly when its representation is not \<open>utf8_valid\<close>:
  \<^verbatim>\<open>s.encode()\<close> raises \<^verbatim>\<open>UnicodeEncodeError\<close> on these strings and returns the
  representation on all others, and \<^verbatim>\<open>b.decode()\<close> succeeds exactly on the
  \<open>utf8_valid\<close> byte sequences.
\<close>

type_synonym bytes = "char list"

definition byte :: "char \<Rightarrow> nat" where
  "byte c = of_char c"

definition utf8_cont :: "char \<Rightarrow> bool" where
  "utf8_cont c \<longleftrightarrow> 128 \<le> byte c \<and> byte c \<le> 191"

fun utf8_valid :: "bytes \<Rightarrow> bool" where
  "utf8_valid [] = True"
| "utf8_valid (b # bs) =
     (if byte b < 128 then utf8_valid bs
      else if 194 \<le> byte b \<and> byte b \<le> 223 then
        (case bs of c1 # r \<Rightarrow> utf8_cont c1 \<and> utf8_valid r | _ \<Rightarrow> False)
      else if 224 \<le> byte b \<and> byte b \<le> 239 then
        (case bs of c1 # c2 # r \<Rightarrow>
            utf8_cont c1 \<and> utf8_cont c2
            \<and> (if byte b = 224 then 160 \<le> byte c1 else True)
            \<and> (if byte b = 237 then byte c1 \<le> 159 else True)
            \<and> utf8_valid r
         | _ \<Rightarrow> False)
      else if 240 \<le> byte b \<and> byte b \<le> 244 then
        (case bs of c1 # c2 # c3 # r \<Rightarrow>
            utf8_cont c1 \<and> utf8_cont c2 \<and> utf8_cont c3
            \<and> (if byte b = 240 then 144 \<le> byte c1 else True)
            \<and> (if byte b = 244 then byte c1 \<le> 143 else True)
            \<and> utf8_valid r
         | _ \<Rightarrow> False)
      else False)"

datatype error =
    ValueError string
  | Exception string
  | KeyError string
  | AttributeError string
  | NotImplementedError string
  | BinasciiError string
  | UnicodeDecodeError
  | UnicodeEncodeError
  | OverflowError string
  | JSONDecodeError
  | ValidationError string
  | TypeError string
  | IntegrityError string
  | MultipleResultsFound

text \<open>\<^verbatim>\<open>str.encode()\<close> and \<^verbatim>\<open>bytes.decode()\<close> (UTF-8, strict).\<close>

definition str_encode :: "string \<Rightarrow> error + bytes" where
  "str_encode s = (if utf8_valid s then Inr s else Inl UnicodeEncodeError)"

definition bytes_decode :: "bytes \<Rightarrow> error + string" where
  "bytes_decode b = (if utf8_valid b then Inr b else Inl UnicodeDecodeError)"

text \<open>Sequencing of calls that may raise: the first error ends the computation.\<close>

definition bind_err :: "error + 'a \<Rightarrow> ('a \<Rightarrow> error + 'b) \<Rightarrow> error + 'b" where
  "bind_err m f = (case m of Inl e \<Rightarrow> Inl e | Inr x \<Rightarrow> f x)"

text \<open>A list comprehension whose element expression may raise: left to right.\<close>

fun map_err :: "('a \<Rightarrow> error + 'b) \<Rightarrow> 'a list \<Rightarrow> error + 'b list" where
  "map_err f [] = Inr []"
| "map_err f (x # xs) =
     bind_err (f x) (\<lambda>y. bind_err (map_err f xs) (\<lambda>ys. Inr (y # ys)))"

section \<open>Base64 (Python's \<^verbatim>\<open>base64\<close> over \<^verbatim>\<open>binascii\<close>)\<close>

definition b64_alphabet :: string where
  "b64_alphabet = ''ABCDEFGHIJKLMNOPQRSTUVWXYZabcdefghijklmnopqrstuvwxyz0123456789+/''"

text \<open>The encoder's table and the decoder's inverse table (None: not a base64 digit).\<close>

definition table_b2a_base64 :: "nat \<Rightarrow> char" where
  "table_b2a_base64 i = b64_alphabet ! i"

definition table_a2b_base64 :: "char \<Rightarrow> nat option" where
  "table_a2b_base64 c = map_of (zip b64_alphabet [0..<64]) c"

text \<open>
  \<^verbatim>\<open>binascii.b2a_base64(data, newline=False)\<close>: three bytes give four digits; a
  final group of one or two bytes is padded with \<^verbatim>\<open>=\<close>.
\<close>

fun b2a_base64 :: "bytes \<Rightarrow> string" where
  "b2a_base64 [] = []"
| "b2a_base64 [a] =
     [table_b2a_base64 (byte a div 4),
      table_b2a_base64 ((byte a mod 4) * 16),
      CHR ''='', CHR ''='']"
| "b2a_base64 [a, b] =
     [table_b2a_base64 (byte a div 4),
      table_b2a_base64 ((byte a mod 4) * 16 + byte b div 16),
      table_b2a_base64 ((byte b mod 16) * 4),
      CHR ''='']"
| "b2a_base64 (a # b # c # rest) =
     [table_b2a_base64 (byte a div 4),
      table_b2a_base64 ((byte a mod 4) * 16 + byte b div 16),
      table_b2a_base64 ((byte b mod 16) * 4 + byte c div 64),
      table_b2a_base64 (byte c mod 64)] @ b2a_base64 rest"

text \<open>
  \<^verbatim>\<open>binascii.a2b_base64(data)\<close> in its default, non-strict mode: the loop over the
  input with the state \<open>quad_pos\<close>, \<open>leftchar\<close>, \<open>pads\<close> and the output written so far.
  Characters outside the alphabet are skipped; a pad that completes a quad ends the
  parse; input that ends inside a quad raises \<^verbatim>\<open>binascii.Error\<close>.
\<close>

fun a2b_loop :: "nat \<Rightarrow> nat \<Rightarrow> nat \<Rightarrow> bytes \<Rightarrow> string \<Rightarrow> error + bytes" where
  "a2b_loop quad_pos leftchar pads out [] =
     (if quad_pos \<noteq> 0 then
        (if quad_pos = 1
         then Inl (BinasciiError ''Invalid base64-encoded string'')
         else Inl (BinasciiError ''Incorrect padding''))
      else Inr out)"
| "a2b_loop quad_pos leftchar pads out (this_ch # rest) =
     (if this_ch = CHR ''='' then
        (if 2 \<le> quad_pos \<and> 4 \<le> quad_pos + (pads + 1) then Inr out
         else a2b_loop quad_pos leftchar (if 2 \<le> quad_pos then pads + 1 else pads) out rest)
      else
        (case table_a2b_base64 this_ch of
           None \<Rightarrow> a2b_loop quad_pos leftchar pads out rest
         | Some v \<Rightarrow>
            (if quad_pos = 0 then a2b_loop 1 v 0 out rest
             else if quad_pos = 1 then
               a2b_loop 2 (v mod 16) 0 (out @ [char_of (leftchar * 4 + v div 16)]) rest
             else if quad_pos = 2 then
               a2b_loop 3 (v mod 4) 0 (out @ [char_of (leftchar * 16 + v div 4)]) rest
             else
               a2b_loop 0 0 0 (out @ [char_of (leftchar * 64 + v)]) rest)))"

definition a2b_base64 :: "string \<Rightarrow> error + bytes" where
  "a2b_base64 s = a2b_loop 0 0 0 [] s"

definition b64encode :: "bytes \<Rightarrow> bytes" where
  "b64encode s = b2a_base64 s"

definition b64decode :: "bytes \<Rightarrow> error + bytes" where
  "b64decode s = a2b_base64 s"

text \<open>The URL-safe variant translates \<^verbatim>\<open>+/\<close> to \<^verbatim>\<open>-_\<close> after encoding and back before decoding.\<close>

definition urlsafe_encode_translation :: "char \<Rightarrow> char" where
  "urlsafe_encode_translation c =
     (if c = CHR ''+'' then CHR ''-'' else if c = CHR ''/'' then CHR ''_'' else c)"

definition urlsafe_decode_translation :: "char \<Rightarrow> char" where
  "urlsafe_decode_translation c =
     (if c = CHR ''-'' then CHR ''+'' else if c = CHR ''_'' then CHR ''/'' else c)"

definition urlsafe_b64encode :: "bytes \<Rightarrow> bytes" where
  "urlsafe_b64encode s = map urlsafe_encode_translation (b64encode s)"

definition urlsafe_b64decode :: "bytes \<Rightarrow> error + bytes" where
  "urlsafe_b64decode s = b64decode (map urlsafe_decode_translation s)"

section \<open>Token encryption (core/encryption.py)\<close>

text \<open>
  \<^verbatim>\<open>cryptography.fernet.Fernet\<close> is an external library: the cipher suite built in
  \<^verbatim>\<open>TokenEncryption.__init__\<close> is a parameter of the model, its two methods as
  functions. \<open>fernet_decrypt\<close> returns \<open>None\<close> where the library raises
  \<^verbatim>\<open>InvalidToken\<close> (wrong key, tampered or malformed token).
\<close>

record fernet =
  fernet_encrypt :: "bytes \<Rightarrow> bytes"
  fernet_decrypt :: "bytes \<Rightarrow> bytes option"

text \<open>
  The library's contract: a token made by \<open>encrypt\<close> decrypts to its plaintext, and a
  token is never empty (a Fernet token starts with a version byte and ends with a MAC).
\<close>

definition fernet_correct :: "fernet \<Rightarrow> bool" where
  "fernet_correct cipher_suite \<longleftrightarrow>
     (\<forall>p. fernet_decrypt cipher_suite (fernet_encrypt cipher_suite p) = Some p
          \<and> fernet_encrypt cipher_suite p \<noteq> [])"

text \<open>
  \<^verbatim>\<open>encrypt_token\<close>: \<^verbatim>\<open>token.encode()\<close> is not inside any \<^verbatim>\<open>try\<close>, so its
  \<^verbatim>\<open>UnicodeEncodeError\<close> reaches the caller.
\<close>

definition encrypt_token :: "fernet \<Rightarrow> string \<Rightarrow> error + string" where
  "encrypt_token cipher_suite token =
     (if token = [] then Inr []
      else
        bind_err (str_encode token) (\<lambda>data.
        bytes_decode (urlsafe_b64encode (fernet_encrypt cipher_suite data))))"

text \<open>
  \<^verbatim>\<open>decrypt_token\<close>: every exception raised inside the \<^verbatim>\<open>try\<close> (encoding the
  text, base64, Fernet, UTF-8) is caught and the empty string is returned; the function
  itself never raises.
\<close>

definition decrypt_token :: "fernet \<Rightarrow> string \<Rightarrow> string" where
  "decrypt_token cipher_suite encrypted_token =
     (if encrypted_token = [] then []
      else
        (case str_encode encrypted_token of
           Inl e \<Rightarrow> []
         | Inr data \<Rightarrow>
            (case urlsafe_b64decode data of
               Inl e \<Rightarrow> []
             | Inr decoded_token \<Rightarrow>
                (case fernet_decrypt cipher_suite decoded_token of
                   None \<Rightarrow> []
                 | Some decrypted_token \<Rightarrow>
                    (case bytes_decode decrypted_token of
                       Inl e \<Rightarrow> []
                     | Inr s \<Rightarrow> s)))))"

text \<open>
  A small cipher suite that meets the contract of Fernet, to run the model on concrete
  inputs: the token is a version byte, the plaintext, and a check byte (the sum of the
  key and plaintext bytes modulo 256); decryption rejects a wrong version or check byte.
\<close>

definition sample_check :: "bytes \<Rightarrow> bytes \<Rightarrow> char" where
  "sample_check key p = char_of (sum_list (map byte key) + sum_list (map byte p))"

definition sample_fernet :: "bytes \<Rightarrow> fernet" where
  "sample_fernet key =
     \<lparr> fernet_encrypt = (\<lambda>p. CHR 0x80 # p @ [sample_check key p]),
       fernet_decrypt = (\<lambda>t.
          (case t of
             [] \<Rightarrow> None
           | v # r \<Rightarrow>
              (if v = CHR 0x80 \<and> r \<noteq> [] \<and> last r = sample_check key (butlast r)
               then Some (butlast r) else None))) \<rparr>"


section \<open>Text helpers of the Python standard library\<close>

text \<open>\<^verbatim>\<open>sep.join(parts)\<close>.\<close>

fun join :: "string \<Rightarrow> string list \<Rightarrow> string" where
  "join sep [] = []"
| "join sep [x] = x"
| "join sep (x # y # ys) = x @ sep @ join sep (y # ys)"

text \<open>\<^verbatim>\<open>s.split(sep)\<close> for a one-character separator: always at least one part.\<close>

fun split_loop :: "char \<Rightarrow> string \<Rightarrow> string \<Rightarrow> string list" where
  "split_loop sep cur [] = [cur]"
| "split_loop sep cur (c # cs) =
     (if c = sep then cur # split_loop sep [] cs else split_loop sep (cur @ [c]) cs)"

definition split :: "string \<Rightarrow> char \<Rightarrow> string list" where
  "split s sep = split_loop sep [] s"

text \<open>\<^verbatim>\<open>s.startswith(p)\<close>.\<close>

definition startswith :: "string \<Rightarrow> string \<Rightarrow> bool" where
  "startswith s p \<longleftrightarrow> take (length p) s = p"

text \<open>
  \<^verbatim>\<open>s.upper()\<close> as it acts on ASCII text (the handler passes the HTTP methods
  \<^verbatim>\<open>POST\<close> and \<^verbatim>\<open>GET\<close>). Python also maps letters outside ASCII, which this
  function keeps: it is \<^verbatim>\<open>str.upper\<close> on the strings that satisfy \<open>ascii\<close> only.
\<close>

definition ascii :: "string \<Rightarrow> bool" where
  "ascii s = list_all (\<lambda>c. byte c < 128) s"

definition upper_char :: "char \<Rightarrow> char" where
  "upper_char c = (if 97 \<le> byte c \<and> byte c \<le> 122 then char_of (byte c - 32) else c)"

definition upper :: "string \<Rightarrow> string" where
  "upper s = map upper_char s"

text \<open>\<^verbatim>\<open>str(n)\<close> for a natural number and for an integer: decimal digits.\<close>

fun str_of_nat :: "nat \<Rightarrow> string" where
  "str_of_nat n =
     (if n < 10 then [char_of (48 + n)]
      else str_of_nat (n div 10) @ [char_of (48 + n mod 10)])"

definition str_of_int :: "int \<Rightarrow> string" where
  "str_of_int i = (if i < 0 then CHR ''-'' # str_of_nat (nat (- i)) else str_of_nat (nat i))"

text \<open>\<^verbatim>\<open>str(v)\<close> of an optional string: \<^verbatim>\<open>None\<close> prints as the text \<^verbatim>\<open>None\<close>.\<close>

definition str_opt :: "string option \<Rightarrow> string" where
  "str_opt v = (case v of None \<Rightarrow> ''None'' | Some s \<Rightarrow> s)"

text \<open>Truth value of an optional string: \<^verbatim>\<open>None\<close> and the empty string are false.\<close>

definition truthy :: "string option \<Rightarrow> bool" where
  "truthy v = (case v of None \<Rightarrow> False | Some s \<Rightarrow> s \<noteq> [])"

subsection \<open>\<^verbatim>\<open>urllib.parse\<close>: quote, quote_plus, urlencode\<close>

text \<open>
  The characters \<^verbatim>\<open>quote\<close> never encodes: the unreserved characters of RFC 3986,
  letters, digits and \<^verbatim>\<open>_.-~\<close>.
\<close>

definition always_safe :: "char \<Rightarrow> bool" where
  "always_safe c \<longleftrightarrow>
     (65 \<le> byte c \<and> byte c \<le> 90) \<or> (97 \<le> byte c \<and> byte c \<le> 122)
     \<or> (48 \<le> byte c \<and> byte c \<le> 57)
     \<or> c = CHR ''_'' \<or> c = CHR ''.'' \<or> c = CHR ''-'' \<or> c = CHR ''~''"

definition hex_digit :: "nat \<Rightarrow> char" where
  "hex_digit n = ''0123456789ABCDEF'' ! n"

definition quote_byte :: "string \<Rightarrow> char \<Rightarrow> string" where
  "quote_byte safe c =
     (if always_safe c \<or> c \<in> set safe then [c]
      else [CHR ''%'', hex_digit (byte c div 16), hex_digit (byte c mod 16)])"

text \<open>Percent-encoding of a byte string: \<^verbatim>\<open>quote_from_bytes\<close>.\<close>

definition quote_from_bytes :: "bytes \<Rightarrow> string \<Rightarrow> string" where
  "quote_from_bytes bs safe = concat (map (quote_byte safe) bs)"

text \<open>
  \<^verbatim>\<open>quote(string, safe)\<close>; the source calls it with \<^verbatim>\<open>safe=''\<close> or the default
  \<^verbatim>\<open>'/'\<close>. The string is encoded first (UTF-8, strict), which raises on a surrogate.
\<close>

definition quote :: "string \<Rightarrow> string \<Rightarrow> error + string" where
  "quote string safe =
     bind_err (str_encode string) (\<lambda>bs. Inr (quote_from_bytes bs safe))"

text \<open>\<^verbatim>\<open>quote_plus(string)\<close>: as \<^verbatim>\<open>quote\<close> with no safe characters, a space becoming \<^verbatim>\<open>+\<close>.\<close>

definition quote_plus :: "string \<Rightarrow> error + string" where
  "quote_plus string =
     bind_err (str_encode string) (\<lambda>bs.
       Inr (concat (map (\<lambda>c. if c = CHR '' '' then ''+'' else quote_byte [] c) bs)))"

text \<open>\<^verbatim>\<open>urlencode(params)\<close> of a dictionary of strings, in the dictionary's order.\<close>

definition urlencode :: "(string \<times> string) list \<Rightarrow> error + string" where
  "urlencode query =
     bind_err
       (map_err (\<lambda>(k, v). bind_err (quote_plus k) (\<lambda>qk. bind_err (quote_plus v) (\<lambda>qv.
                   Inr (qk @ ''='' @ qv)))) query)
       (\<lambda>parts. Inr (join ''&'' parts))"

section \<open>The outside world\<close>

text \<open>
  JSON values as \<^verbatim>\<open>response.json()\<close> returns them (numbers are integers here).
\<close>

datatype json =
    JNull
  | JBool bool
  | JInt int
  | JStr string
  | JArr "json list"
  | JObj "(string \<times> json) list"

text \<open>\<^verbatim>\<open>d.get(key)\<close> on a parsed JSON object.\<close>

definition jget :: "(string \<times> json) list \<Rightarrow> string \<Rightarrow> json option" where
  "jget d k = map_of d k"

record http_request =
  req_method :: string
  req_url :: string
  req_headers :: "(string \<times> string) list"
  req_data :: "(string \<times> string option) list"

text \<open>
  A response: the status, the body as text, and the body parsed as JSON (\<open>None\<close> where
  \<^verbatim>\<open>response.json()\<close> raises).
\<close>

record http_response =
  status_code :: nat
  resp_text :: string
  json_body :: "json option"

text \<open>The settings of core/config.py that the OAuth handlers read.\<close>

record settings =
  TWITTER_API_KEY :: string
  TWITTER_API_SECRET :: string
  LINKEDIN_CLIENT_ID :: string
  LINKEDIN_CLIENT_SECRET :: string
  META_APP_ID :: string
  META_APP_SECRET :: string

text \<open>
  Everything one operation of the service takes from outside the program:
  the HTTP client (a request is answered or raises), the clock
  (\<^verbatim>\<open>datetime.utcnow()\<close> and \<^verbatim>\<open>time.time()\<close>, in seconds), the random sources
  (\<^verbatim>\<open>secrets.token_urlsafe(32)\<close>, the successive \<^verbatim>\<open>secrets.token_hex(16)\<close>,
  \<^verbatim>\<open>uuid.uuid4()\<close>), the library function HMAC-SHA1 (key, then message), and the
  global \<^verbatim>\<open>token_encryption\<close> with its cipher suite.
\<close>

record env =
  env_settings :: settings
  client :: "http_request \<Rightarrow> error + http_response"
  utcnow :: int
  token_urlsafe :: string
  token_hex :: "nat \<Rightarrow> string"
  uuid4 :: string
  hmac_sha1 :: "bytes \<Rightarrow> bytes \<Rightarrow> bytes"
  token_encryption :: fernet

section \<open>Data of the OAuth handlers (services/oauth/base.py)\<close>

record OAuthConfig =
  client_id :: string
  client_secret :: string
  authorization_url :: string
  token_url :: string
  scope :: string
  redirect_uri :: string

record OAuthTokens =
  access_token :: string
  refresh_token :: "string option"
  expires_in :: "int option"
  expires_at :: "int option"
  token_type :: string
  tokens_scope :: "string option"
  oauth_token_secret :: "string option"

record UserProfile =
  platform_user_id :: string
  username :: string
  display_name :: "string option"
  email :: "string option"
  profile_image_url :: "string option"

text \<open>
  Validation of a model field of type \<^verbatim>\<open>str\<close> (with the default used when the key
  is absent) and of type \<^verbatim>\<open>Optional[str]\<close>, \<^verbatim>\<open>Optional[int]\<close>.
\<close>

definition field_str :: "json option \<Rightarrow> string \<Rightarrow> string \<Rightarrow> error + string" where
  "field_str v dflt name =
     (case v of None \<Rightarrow> Inr dflt | Some (JStr s) \<Rightarrow> Inr s | Some _ \<Rightarrow> Inl (ValidationError name))"

definition field_opt_str :: "json option \<Rightarrow> string \<Rightarrow> error + string option" where
  "field_opt_str v name =
     (case v of None \<Rightarrow> Inr None | Some JNull \<Rightarrow> Inr None | Some (JStr s) \<Rightarrow> Inr (Some s)
      | Some _ \<Rightarrow> Inl (ValidationError name))"

definition field_opt_int :: "json option \<Rightarrow> string \<Rightarrow> error + int option" where
  "field_opt_int v name =
     (case v of None \<Rightarrow> Inr None | Some JNull \<Rightarrow> Inr None | Some (JInt i) \<Rightarrow> Inr (Some i)
      | Some (JBool b) \<Rightarrow> Inr (Some (if b then 1 else 0))
      | Some _ \<Rightarrow> Inl (ValidationError name))"

text \<open>
  \<^verbatim>\<open>datetime.utcnow() + timedelta(seconds=n)\<close>, in seconds since the epoch: the
  \<^verbatim>\<open>timedelta\<close> must stay within 999999999 days and the sum within the years 1 to
  9999, or \<^verbatim>\<open>OverflowError\<close> is raised.
\<close>

definition add_seconds :: "int \<Rightarrow> int \<Rightarrow> error + int" where
  "add_seconds now n =
     (if n < - 86399999913600 \<or> 86399999999999 < n
      then Inl (OverflowError ''timedelta'')
      else if now + n < - 62135596800 \<or> 253402300799 < now + n
      then Inl (OverflowError ''date value out of range'')
      else Inr (now + n))"

text \<open>
  \<^verbatim>\<open>str(v)\<close> of a JSON value. Lists and objects print through Python's \<^verbatim>\<open>repr\<close>,
  which is not modelled: they are shown by a fixed text.
\<close>

fun py_str :: "json \<Rightarrow> string" where
  "py_str (JStr s) = s"
| "py_str (JInt i) = str_of_int i"
| "py_str JNull = ''None''"
| "py_str (JBool b) = (if b then ''True'' else ''False'')"
| "py_str (JArr xs) = ''[...]''"
| "py_str (JObj kv) = ''{...}''"

section \<open>Twitter OAuth 1.0a (services/oauth/twitter.py)\<close>

record TwitterOAuth1Handler =
  tw_client_id :: string
  tw_client_secret :: string
  tw_redirect_uri :: string
  request_token_url :: string
  authorize_url :: string
  access_token_url :: string
  profile_url :: string

definition TwitterOAuth1Handler_init :: "env \<Rightarrow> string \<Rightarrow> TwitterOAuth1Handler" where
  "TwitterOAuth1Handler_init e redirect =
     \<lparr> tw_client_id = TWITTER_API_KEY (env_settings e),
       tw_client_secret = TWITTER_API_SECRET (env_settings e),
       tw_redirect_uri = redirect,
       request_token_url = ''https://api.x.com/oauth/request_token'',
       authorize_url = ''https://api.x.com/oauth/authenticate'',
       access_token_url = ''https://api.x.com/oauth/access_token'',
       profile_url = ''https://api.x.com/1.1/account/verify_credentials.json'' \<rparr>"

subsection \<open>\<^verbatim>\<open>_generate_oauth_signature\<close>\<close>

text \<open>
  The parameter dictionary is the list of its items. The three local variables of the
  method, \<^verbatim>\<open>param_string\<close>, \<^verbatim>\<open>base_string\<close> and \<^verbatim>\<open>signing_key\<close>, are definitions of
  their own. \<^verbatim>\<open>sorted(params.items())\<close> orders the items as pairs of strings, before
  anything is percent-encoded.
\<close>

definition param_string :: "(string \<times> string) list \<Rightarrow> error + string" where
  "param_string params =
     (let sorted_params = sort params
      in bind_err
           (map_err (\<lambda>(k, v). bind_err (quote k []) (\<lambda>qk. bind_err (quote v []) (\<lambda>qv.
                       Inr (qk @ ''='' @ qv)))) sorted_params)
           (\<lambda>parts. Inr (join ''&'' parts)))"

definition base_string ::
  "string \<Rightarrow> string \<Rightarrow> (string \<times> string) list \<Rightarrow> error + string" where
  "base_string method url params =
     bind_err (param_string params) (\<lambda>pstring.
     bind_err (quote url []) (\<lambda>qurl.
     bind_err (quote pstring []) (\<lambda>qparams.
     Inr (upper method @ ''&'' @ qurl @ ''&'' @ qparams))))"

definition signing_key :: "string \<Rightarrow> string \<Rightarrow> error + string" where
  "signing_key consumer_secret token_secret =
     bind_err (quote consumer_secret []) (\<lambda>qc.
     bind_err (quote token_secret []) (\<lambda>qt.
     Inr (qc @ ''&'' @ qt)))"

definition generate_oauth_signature ::
  "(bytes \<Rightarrow> bytes \<Rightarrow> bytes) \<Rightarrow> TwitterOAuth1Handler \<Rightarrow>
     string \<Rightarrow> string \<Rightarrow> (string \<times> string) list \<Rightarrow> string \<Rightarrow> error + string" where
  "generate_oauth_signature hmac self method url params token_secret =
     bind_err (base_string method url params) (\<lambda>bstring.
     bind_err (signing_key (tw_client_secret self) token_secret) (\<lambda>skey.
     bind_err (str_encode skey) (\<lambda>key_bytes.
     bind_err (str_encode bstring) (\<lambda>msg_bytes.
     (let signature = hmac key_bytes msg_bytes
      in bytes_decode (b64encode signature))))))"

definition create_oauth_header :: "(string \<times> string) list \<Rightarrow> error + string" where
  "create_oauth_header params =
     (let oauth_params = filter (\<lambda>(k, v). startswith k ''oauth_'') params;
          sorted_params = sort oauth_params
      in bind_err
           (map_err (\<lambda>(k, v). bind_err (quote v ''/'') (\<lambda>qv.
                       Inr (k @ [CHR ''='', CHR 0x22] @ qv @ [CHR 0x22]))) sorted_params)
           (\<lambda>parts. Inr (''OAuth '' @ join '', '' parts)))"

text \<open>The loop that parses a form-encoded body \<^verbatim>\<open>k=v&k=v\<close> into a dictionary.\<close>

fun parse_response_params ::
  "string list \<Rightarrow> (string \<times> string) list \<Rightarrow> error + (string \<times> string) list" where
  "parse_response_params [] response_params = Inr response_params"
| "parse_response_params (param # rest) response_params =
     (case split param (CHR ''='') of
        [key, val] \<Rightarrow> parse_response_params rest (AList.update key val response_params)
      | [key] \<Rightarrow> Inl (ValueError ''not enough values to unpack (expected 2, got 1)'')
      | _ \<Rightarrow> Inl (ValueError ''too many values to unpack (expected 2)''))"

text \<open>
  The lines the three request methods share: the signature is computed over the
  parameters, stored under \<^verbatim>\<open>oauth_signature\<close>, and the header is built from the
  result.
\<close>

definition signed_header ::
  "env \<Rightarrow> TwitterOAuth1Handler \<Rightarrow> string \<Rightarrow> string \<Rightarrow> (string \<times> string) list \<Rightarrow>
     string \<Rightarrow> error + string" where
  "signed_header e self method url oauth_params token_secret =
     bind_err (generate_oauth_signature (hmac_sha1 e) self method url oauth_params token_secret)
       (\<lambda>signature.
          create_oauth_header (AList.update ''oauth_signature'' signature oauth_params))"

definition get_request_token ::
  "env \<Rightarrow> TwitterOAuth1Handler \<Rightarrow> error + (string \<times> string) list" where
  "get_request_token e self =
     (let oauth_params =
            [(''oauth_callback'', tw_redirect_uri self),
             (''oauth_consumer_key'', tw_client_id self),
             (''oauth_nonce'', token_hex e 0),
             (''oauth_signature_method'', ''HMAC-SHA1''),
             (''oauth_timestamp'', str_of_int (utcnow e)),
             (''oauth_version'', ''1.0'')]
      in bind_err (signed_header e self ''POST'' (request_token_url self) oauth_params [])
           (\<lambda>auth_header.
         bind_err
           (client e \<lparr> req_method = ''POST'', req_url = request_token_url self,
                       req_headers = [(''Authorization'', auth_header)], req_data = [] \<rparr>)
           (\<lambda>response.
              if status_code response \<noteq> 200
              then Inl (Exception (''Failed to get request token: '' @ resp_text response))
              else parse_response_params (split (resp_text response) (CHR ''&'')) [])))"

definition tw1_generate_authorization_url ::
  "TwitterOAuth1Handler \<Rightarrow> string \<Rightarrow> error + string" where
  "tw1_generate_authorization_url self oauth_token =
     bind_err (urlencode [(''oauth_token'', oauth_token)]) (\<lambda>query.
     Inr (authorize_url self @ ''?'' @ query))"

definition get_access_token ::
  "env \<Rightarrow> TwitterOAuth1Handler \<Rightarrow> string option \<Rightarrow> string option \<Rightarrow> string \<Rightarrow>
     error + (string \<times> string) list" where
  "get_access_token e self oauth_token oauth_verifier token_secret =
     (let oauth_params =
            [(''oauth_consumer_key'', tw_client_id self),
             (''oauth_nonce'', token_hex e 0),
             (''oauth_signature_method'', ''HMAC-SHA1''),
             (''oauth_timestamp'', str_of_int (utcnow e)),
             (''oauth_token'', str_opt oauth_token),
             (''oauth_verifier'', str_opt oauth_verifier),
             (''oauth_version'', ''1.0'')]
      in bind_err (signed_header e self ''POST'' (access_token_url self) oauth_params token_secret)
           (\<lambda>auth_header.
         bind_err
           (client e \<lparr> req_method = ''POST'', req_url = access_token_url self,
                       req_headers = [(''Authorization'', auth_header)], req_data = [] \<rparr>)
           (\<lambda>response.
              if status_code response \<noteq> 200
              then Inl (Exception (''Failed to get access token: '' @ resp_text response))
              else parse_response_params (split (resp_text response) (CHR ''&'')) [])))"

definition tw1_get_user_profile ::
  "env \<Rightarrow> TwitterOAuth1Handler \<Rightarrow> string \<Rightarrow> string \<Rightarrow> error + UserProfile" where
  "tw1_get_user_profile e self oauth_token token_secret =
     (let oauth_params =
            [(''oauth_consumer_key'', tw_client_id self),
             (''oauth_nonce'', token_hex e 1),
             (''oauth_signature_method'', ''HMAC-SHA1''),
             (''oauth_timestamp'', str_of_int (utcnow e)),
             (''oauth_token'', oauth_token),
             (''oauth_version'', ''1.0'')]
      in bind_err (signed_header e self ''GET'' (profile_url self) oauth_params token_secret)
           (\<lambda>auth_header.
         bind_err
           (client e \<lparr> req_method = ''GET'', req_url = profile_url self,
                       req_headers = [(''Authorization'', auth_header)], req_data = [] \<rparr>)
           (\<lambda>response.
              if status_code response \<noteq> 200
              then Inl (Exception (''Failed to get user profile: '' @ resp_text response))
              else
                (case json_body response of
                   None \<Rightarrow> Inl JSONDecodeError
                 | Some (JObj profile_data) \<Rightarrow>
                     bind_err (field_str (jget profile_data ''screen_name'') [] ''username'')
                       (\<lambda>uname.
                     bind_err (field_opt_str (jget profile_data ''name'') ''display_name'')
                       (\<lambda>dname.
                     bind_err (field_opt_str (jget profile_data ''profile_image_url_https'')
                                 ''profile_image_url'')
                       (\<lambda>image.
                     Inr \<lparr> platform_user_id =
                             (case jget profile_data ''id'' of None \<Rightarrow> [] | Some v \<Rightarrow> py_str v),
                           username = uname, display_name = dname, email = None,
                           profile_image_url = image \<rparr>)))
                 | Some _ \<Rightarrow> Inl (AttributeError ''get'')))))"

subsection \<open>The wrapper \<^verbatim>\<open>TwitterOAuthHandler\<close>\<close>

record RequestToken =
  rt_oauth_token :: string
  rt_oauth_token_secret :: string

text \<open>
  The wrapper object: the inner handler and the dictionary \<^verbatim>\<open>_request_tokens\<close>,
  which belongs to this one object and starts empty.
\<close>

record TwitterOAuthHandler =
  handler :: TwitterOAuth1Handler
  wrapper_redirect_uri :: string
  request_tokens :: "(string \<times> RequestToken) list"

definition TwitterOAuthHandler_init :: "env \<Rightarrow> string \<Rightarrow> TwitterOAuthHandler" where
  "TwitterOAuthHandler_init e redirect =
     \<lparr> handler = TwitterOAuth1Handler_init e redirect,
       wrapper_redirect_uri = redirect,
       request_tokens = [] \<rparr>"

definition initiate_oauth_flow ::
  "env \<Rightarrow> TwitterOAuthHandler \<Rightarrow> string \<Rightarrow> (error + string) \<times> TwitterOAuthHandler" where
  "initiate_oauth_flow e self state =
     (case get_request_token e (handler self) of
        Inl err \<Rightarrow> (Inl err, self)
      | Inr request_token_data \<Rightarrow>
         (case map_of request_token_data ''oauth_token'' of
            None \<Rightarrow> (Inl (KeyError ''oauth_token''), self)
          | Some tok \<Rightarrow>
             (case map_of request_token_data ''oauth_token_secret'' of
                None \<Rightarrow> (Inl (KeyError ''oauth_token_secret''), self)
              | Some sec \<Rightarrow>
                 (let self' = self\<lparr> request_tokens :=
                        AList.update state
                          \<lparr> rt_oauth_token = tok, rt_oauth_token_secret = sec \<rparr>
                          (request_tokens self) \<rparr>
                  in (tw1_generate_authorization_url (handler self) tok, self')))))"

text \<open>
  \<^verbatim>\<open>exchange_code_for_tokens\<close> of the wrapper. The returned dictionary is given as the
  \<^verbatim>\<open>OAuthTokens\<close> the caller builds from it.
\<close>

definition tw_exchange_code_for_tokens ::
  "env \<Rightarrow> TwitterOAuthHandler \<Rightarrow> string option \<Rightarrow> string option \<Rightarrow> string \<Rightarrow>
     (error + OAuthTokens) \<times> TwitterOAuthHandler" where
  "tw_exchange_code_for_tokens e self oauth_token oauth_verifier state =
     (case map_of (request_tokens self) state of
        None \<Rightarrow> (Inl (Exception ''Invalid state or expired request token''), self)
      | Some request_token_data \<Rightarrow>
         (if Some (rt_oauth_token request_token_data) \<noteq> oauth_token
          then (Inl (Exception ''OAuth token mismatch''), self)
          else
            (case get_access_token e (handler self) oauth_token oauth_verifier
                    (rt_oauth_token_secret request_token_data) of
               Inl err \<Rightarrow> (Inl err, self)
             | Inr access_token_data \<Rightarrow>
                (let self' = self\<lparr> request_tokens := AList.delete state (request_tokens self) \<rparr>
                 in (case map_of access_token_data ''oauth_token'' of
                       None \<Rightarrow> (Inl (KeyError ''oauth_token''), self')
                     | Some tok \<Rightarrow>
                        (case map_of access_token_data ''oauth_token_secret'' of
                           None \<Rightarrow> (Inl (KeyError ''oauth_token_secret''), self')
                         | Some sec \<Rightarrow>
                            (Inr \<lparr> access_token = tok, refresh_token = None,
                                   expires_in = None, expires_at = None,
                                   token_type = ''oauth1'', tokens_scope = None,
                                   oauth_token_secret = Some sec \<rparr>, self')))))))"

definition tw_get_user_profile ::
  "env \<Rightarrow> TwitterOAuthHandler \<Rightarrow> string \<Rightarrow> string option \<Rightarrow> error + UserProfile" where
  "tw_get_user_profile e self token token_secret =
     (if \<not> truthy token_secret
      then Inl (Exception ''OAuth token secret required for Twitter OAuth 1.0a'')
      else tw1_get_user_profile e (handler self) token (the token_secret))"

section \<open>OAuth 2.0 handlers (services/oauth/base.py, linkedin.py, meta.py)\<close>

text \<open>
  The subclasses of \<^verbatim>\<open>BaseOAuthHandler\<close>: LinkedIn, and Meta with its
  \<^verbatim>\<open>platform_type\<close> (\<^verbatim>\<open>facebook\<close> or \<^verbatim>\<open>instagram\<close>).
\<close>

datatype oauth2_kind = LinkedIn | Meta string

record BaseOAuthHandler =
  config :: OAuthConfig
  kind :: oauth2_kind

definition LinkedInOAuthHandler_init :: "env \<Rightarrow> string \<Rightarrow> BaseOAuthHandler" where
  "LinkedInOAuthHandler_init e redirect =
     \<lparr> config =
         \<lparr> client_id = LINKEDIN_CLIENT_ID (env_settings e),
           client_secret = LINKEDIN_CLIENT_SECRET (env_settings e),
           authorization_url = ''https://www.linkedin.com/oauth/v2/authorization'',
           token_url = ''https://www.linkedin.com/oauth/v2/accessToken'',
           scope = ''profile email w_member_social'',
           redirect_uri = redirect \<rparr>,
       kind = LinkedIn \<rparr>"

definition MetaOAuthHandler_init :: "env \<Rightarrow> string \<Rightarrow> string \<Rightarrow> BaseOAuthHandler" where
  "MetaOAuthHandler_init e redirect platform_type =
     \<lparr> config =
         \<lparr> client_id = META_APP_ID (env_settings e),
           client_secret = META_APP_SECRET (env_settings e),
           authorization_url =
             (if platform_type = ''instagram'' then ''https://api.instagram.com/oauth/authorize''
              else ''https://www.facebook.com/v18.0/dialog/oauth''),
           token_url =
             (if platform_type = ''instagram'' then ''https://api.instagram.com/oauth/access_token''
              else ''https://graph.facebook.com/v18.0/oauth/access_token''),
           scope =
             (if platform_type = ''instagram'' then ''instagram_basic''
              else ''pages_manage_posts,pages_read_engagement,pages_show_list''),
           redirect_uri = redirect \<rparr>,
       kind = Meta platform_type \<rparr>"

definition FacebookOAuthHandler_init :: "env \<Rightarrow> string \<Rightarrow> BaseOAuthHandler" where
  "FacebookOAuthHandler_init e redirect = MetaOAuthHandler_init e redirect ''facebook''"

definition InstagramOAuthHandler_init :: "env \<Rightarrow> string \<Rightarrow> BaseOAuthHandler" where
  "InstagramOAuthHandler_init e redirect = MetaOAuthHandler_init e redirect ''instagram''"

text \<open>The abstract methods; both subclasses return empty extra parameters.\<close>

definition get_authorization_params :: "BaseOAuthHandler \<Rightarrow> (string \<times> string) list" where
  "get_authorization_params self = []"

definition get_token_exchange_params ::
  "BaseOAuthHandler \<Rightarrow> string option \<Rightarrow> string \<Rightarrow> (string \<times> string option) list" where
  "get_token_exchange_params self code state = []"

definition get_token_exchange_headers :: "BaseOAuthHandler \<Rightarrow> (string \<times> string) list" where
  "get_token_exchange_headers self = [(''Content-Type'', ''application/x-www-form-urlencoded'')]"

definition get_api_headers :: "BaseOAuthHandler \<Rightarrow> (string \<times> string) list" where
  "get_api_headers self = [(''Content-Type'', ''application/json'')]"

definition get_profile_url :: "BaseOAuthHandler \<Rightarrow> string" where
  "get_profile_url self =
     (case kind self of
        LinkedIn \<Rightarrow> ''https://api.linkedin.com/v2/userinfo''
      | Meta platform_type \<Rightarrow>
          (if platform_type = ''instagram''
           then ''https://graph.instagram.com/me?fields=id,username''
           else ''https://graph.facebook.com/v18.0/me?fields=id,name,picture''))"

text \<open>\<^verbatim>\<open>d.update(other)\<close> on dictionaries kept as item lists.\<close>

definition dict_update :: "('k \<times> 'v) list \<Rightarrow> ('k \<times> 'v) list \<Rightarrow> ('k \<times> 'v) list" where
  "dict_update d other = fold (\<lambda>(k, v). AList.update k v) other d"

definition base_generate_authorization_url ::
  "BaseOAuthHandler \<Rightarrow> string \<Rightarrow> error + string" where
  "base_generate_authorization_url self state =
     (let params =
            [(''client_id'', client_id (config self)),
             (''redirect_uri'', redirect_uri (config self)),
             (''scope'', scope (config self)),
             (''response_type'', ''code''),
             (''state'', state)];
          params = dict_update params (get_authorization_params self)
      in bind_err (urlencode params) (\<lambda>query.
         Inr (authorization_url (config self) @ ''?'' @ query)))"

text \<open>Truth value of a JSON value, as Python's \<^verbatim>\<open>if v\<close> and \<^verbatim>\<open>v or d\<close> take it.\<close>

fun json_truthy :: "json \<Rightarrow> bool" where
  "json_truthy JNull = False"
| "json_truthy (JBool b) = b"
| "json_truthy (JInt i) = (i \<noteq> 0)"
| "json_truthy (JStr s) = (s \<noteq> [])"
| "json_truthy (JArr xs) = (xs \<noteq> [])"
| "json_truthy (JObj kv) = (kv \<noteq> [])"

definition parse_token_response :: "env \<Rightarrow> json \<Rightarrow> error + OAuthTokens" where
  "parse_token_response e token_data =
     (case token_data of
        JObj d \<Rightarrow>
          bind_err
            (case jget d ''expires_in'' of
               None \<Rightarrow> Inr None
             | Some (JInt n) \<Rightarrow> bind_err (add_seconds (utcnow e) n) (\<lambda>t. Inr (Some t))
             | Some (JBool b) \<Rightarrow>
                 bind_err (add_seconds (utcnow e) (if b then 1 else 0)) (\<lambda>t. Inr (Some t))
             | Some _ \<Rightarrow> Inl (TypeError ''timedelta''))
            (\<lambda>expires.
          (case jget d ''access_token'' of
             None \<Rightarrow> Inl (KeyError ''access_token'')
           | Some a \<Rightarrow>
              bind_err (field_str (Some a) [] ''access_token'') (\<lambda>atok.
              bind_err (field_opt_str (jget d ''refresh_token'') ''refresh_token'') (\<lambda>rtok.
              bind_err (field_opt_int (jget d ''expires_in'') ''expires_in'') (\<lambda>ein.
              bind_err (field_str (jget d ''token_type'') ''Bearer'' ''token_type'') (\<lambda>ttype.
              bind_err (field_opt_str (jget d ''scope'') ''scope'') (\<lambda>sc.
              Inr \<lparr> access_token = atok, refresh_token = rtok, expires_in = ein,
                    expires_at = expires, token_type = ttype, tokens_scope = sc,
                    oauth_token_secret = None \<rparr>)))))))
      | _ \<Rightarrow> Inl (TypeError ''token_data''))"

definition base_exchange_code_for_tokens ::
  "env \<Rightarrow> BaseOAuthHandler \<Rightarrow> string option \<Rightarrow> string \<Rightarrow> error + OAuthTokens" where
  "base_exchange_code_for_tokens e self code state =
     (let data =
            [(''client_id'', Some (client_id (config self))),
             (''client_secret'', Some (client_secret (config self))),
             (''code'', code),
             (''redirect_uri'', Some (redirect_uri (config self))),
             (''grant_type'', Some ''authorization_code'')];
          data = dict_update data (get_token_exchange_params self code state);
          headers = get_token_exchange_headers self
      in bind_err
           (client e \<lparr> req_method = ''POST'', req_url = token_url (config self),
                       req_headers = headers, req_data = data \<rparr>)
           (\<lambda>response.
              if status_code response \<noteq> 200
              then Inl (Exception (''Token exchange failed: '' @ resp_text response))
              else (case json_body response of
                      None \<Rightarrow> Inl JSONDecodeError
                    | Some token_data \<Rightarrow> parse_token_response e token_data)))"

definition refresh_access_token ::
  "env \<Rightarrow> BaseOAuthHandler \<Rightarrow> string \<Rightarrow> error + OAuthTokens" where
  "refresh_access_token e self rtoken =
     (if rtoken = [] then Inl (Exception ''No refresh token available'')
      else
        (let data =
               [(''client_id'', Some (client_id (config self))),
                (''client_secret'', Some (client_secret (config self))),
                (''refresh_token'', Some rtoken),
                (''grant_type'', Some ''refresh_token'')];
             headers = get_token_exchange_headers self
         in bind_err
              (client e \<lparr> req_method = ''POST'', req_url = token_url (config self),
                          req_headers = headers, req_data = data \<rparr>)
              (\<lambda>response.
                 if status_code response \<noteq> 200
                 then Inl (Exception (''Token refresh failed: '' @ resp_text response))
                 else (case json_body response of
                         None \<Rightarrow> Inl JSONDecodeError
                       | Some token_data \<Rightarrow> parse_token_response e token_data))))"

text \<open>\<^verbatim>\<open>parse_user_profile\<close> of LinkedIn and of Meta.\<close>

definition linkedin_parse_user_profile :: "(string \<times> json) list \<Rightarrow> error + UserProfile" where
  "linkedin_parse_user_profile profile_data =
     (let sub_value = (case jget profile_data ''sub'' of None \<Rightarrow> JStr [] | Some v \<Rightarrow> v);
          name_value =
            (case jget profile_data ''name'' of
               None \<Rightarrow> None
             | Some v \<Rightarrow> (if json_truthy v then Some v else None))
      in bind_err
           (case jget profile_data ''email'' of
              None \<Rightarrow> Inr sub_value
            | Some v \<Rightarrow>
               (if json_truthy v
                then (case v of
                        JStr s \<Rightarrow> Inr (JStr (case split s (CHR ''@'') of [] \<Rightarrow> [] | x # _ \<Rightarrow> x))
                      | _ \<Rightarrow> Inl (AttributeError ''split''))
                else Inr sub_value)) (\<lambda>username_value.
         bind_err (field_str (Some sub_value) [] ''platform_user_id'') (\<lambda>sub.
         bind_err (field_str (Some username_value) [] ''username'') (\<lambda>uname.
         bind_err (field_opt_str name_value ''display_name'') (\<lambda>dname.
         bind_err (field_opt_str (jget profile_data ''email'') ''email'') (\<lambda>mail.
         bind_err (field_opt_str (jget profile_data ''picture'') ''profile_image_url'') (\<lambda>image.
         Inr \<lparr> platform_user_id = sub, username = uname, display_name = dname,
               email = mail, profile_image_url = image \<rparr>)))))))"

definition meta_parse_user_profile ::
  "string \<Rightarrow> (string \<times> json) list \<Rightarrow> error + UserProfile" where
  "meta_parse_user_profile platform_type profile_data =
     (if platform_type = ''instagram'' then
        bind_err (field_str (jget profile_data ''id'') [] ''platform_user_id'') (\<lambda>uid.
        bind_err (field_str (jget profile_data ''username'') [] ''username'') (\<lambda>uname.
        bind_err (field_opt_str (jget profile_data ''username'') ''display_name'') (\<lambda>dname.
        Inr \<lparr> platform_user_id = uid, username = uname, display_name = dname,
              email = None, profile_image_url = None \<rparr>)))
      else
        bind_err
          (case jget profile_data ''picture'' of
             Some (JObj picture_data) \<Rightarrow>
               (case jget picture_data ''data'' of
                  None \<Rightarrow> Inr None
                | Some (JObj d) \<Rightarrow> Inr (jget d ''url'')
                | Some _ \<Rightarrow> Inl (AttributeError ''get''))
           | _ \<Rightarrow> Inr None) (\<lambda>image_json.
        bind_err (field_str (jget profile_data ''id'') [] ''platform_user_id'') (\<lambda>uid.
        bind_err (field_str (jget profile_data ''name'') [] ''username'') (\<lambda>uname.
        bind_err (field_opt_str (jget profile_data ''name'') ''display_name'') (\<lambda>dname.
        bind_err (field_opt_str image_json ''profile_image_url'') (\<lambda>image.
        Inr \<lparr> platform_user_id = uid, username = uname, display_name = dname,
              email = None, profile_image_url = image \<rparr>))))))"

definition parse_user_profile :: "BaseOAuthHandler \<Rightarrow> json \<Rightarrow> error + UserProfile" where
  "parse_user_profile self profile_data =
     (case profile_data of
        JObj d \<Rightarrow>
          (case kind self of
             LinkedIn \<Rightarrow> linkedin_parse_user_profile d
           | Meta platform_type \<Rightarrow> meta_parse_user_profile platform_type d)
      | _ \<Rightarrow> Inl (AttributeError ''get''))"

definition base_get_user_profile ::
  "env \<Rightarrow> BaseOAuthHandler \<Rightarrow> string \<Rightarrow> error + UserProfile" where
  "base_get_user_profile e self token =
     (let headers = (''Authorization'', ''Bearer '' @ token) # get_api_headers self;
          url = get_profile_url self
      in bind_err
           (client e \<lparr> req_method = ''GET'', req_url = url,
                       req_headers = headers, req_data = [] \<rparr>)
           (\<lambda>response.
              if status_code response \<noteq> 200
              then Inl (Exception (''Failed to get user profile: '' @ resp_text response))
              else (case json_body response of
                      None \<Rightarrow> Inl JSONDecodeError
                    | Some profile_data \<Rightarrow> parse_user_profile self profile_data)))"

section \<open>Platform connections (models/platform_connection.py)\<close>

text \<open>A row of the table \<^verbatim>\<open>platform_connections\<close>; the three token columns hold ciphertext.\<close>

record PlatformConnection =
  conn_id :: string
  conn_user_id :: string
  conn_platform :: string
  conn_platform_user_id :: string
  conn_platform_username :: string
  conn_access_token :: string
  conn_refresh_token :: "string option"
  conn_oauth_token_secret :: "string option"
  conn_expires_at :: "int option"
  conn_is_active :: bool
  conn_created_at :: int
  conn_updated_at :: int

text \<open>The database session, as far as the service uses it: the rows of that table.\<close>

type_synonym db = "PlatformConnection list"

text \<open>\<^verbatim>\<open>result.scalar_one_or_none()\<close> on the rows a query selects.\<close>

definition scalar_one_or_none :: "'a list \<Rightarrow> error + 'a option" where
  "scalar_one_or_none rows =
     (case rows of [] \<Rightarrow> Inr None | [r] \<Rightarrow> Inr (Some r) | _ \<Rightarrow> Inl MultipleResultsFound)"

section \<open>The connection service (services/platform_connection_service.py)\<close>

text \<open>A value of \<^verbatim>\<open>active_states\<close>: the dictionary stored under a state token.\<close>

record state_data =
  st_user_id :: string
  st_platform :: string
  st_redirect_uri :: string
  st_created_at :: int

text \<open>
  The service object. \<^verbatim>\<open>active_states\<close> is a Python dictionary, kept as the list of
  its items in insertion order (the order in which \<^verbatim>\<open>.items()\<close> iterates).
\<close>

record PlatformConnectionService =
  active_states :: "(string \<times> state_data) list"

datatype oauth_handler =
    OAuth2Handler BaseOAuthHandler
  | TwitterHandler TwitterOAuthHandler

text \<open>The dictionary \<^verbatim>\<open>oauth_handlers\<close>: platform name to handler class.\<close>

definition oauth_handlers :: "(string \<times> (env \<Rightarrow> string \<Rightarrow> oauth_handler)) list" where
  "oauth_handlers =
     [(''twitter'', \<lambda>e r. TwitterHandler (TwitterOAuthHandler_init e r)),
      (''linkedin'', \<lambda>e r. OAuth2Handler (LinkedInOAuthHandler_init e r)),
      (''facebook'', \<lambda>e r. OAuth2Handler (FacebookOAuthHandler_init e r)),
      (''instagram'', \<lambda>e r. OAuth2Handler (InstagramOAuthHandler_init e r))]"

definition get_oauth_handler :: "env \<Rightarrow> string \<Rightarrow> string \<Rightarrow> error + oauth_handler" where
  "get_oauth_handler e platform redirect =
     (case map_of oauth_handlers platform of
        None \<Rightarrow> Inl (ValueError (''Unsupported platform: '' @ platform))
      | Some handler_class \<Rightarrow> Inr (handler_class e redirect))"

text \<open>
  \<^verbatim>\<open>initiate_oauth\<close>: the state is stored first, then the handler is looked up. The
  result is the authorization URL or the exception, with the service as it is left.
\<close>

definition initiate_oauth ::
  "env \<Rightarrow> PlatformConnectionService \<Rightarrow> string \<Rightarrow> string \<Rightarrow> string \<Rightarrow>
     (error + string) \<times> PlatformConnectionService" where
  "initiate_oauth e self platform user_id redirect =
     (let state = token_urlsafe e;
          self = self\<lparr> active_states :=
                   AList.update state
                     \<lparr> st_user_id = user_id, st_platform = platform,
                       st_redirect_uri = redirect, st_created_at = utcnow e \<rparr>
                     (active_states self) \<rparr>
      in (case get_oauth_handler e platform redirect of
            Inl err \<Rightarrow> (Inl err, self)
          | Inr h \<Rightarrow>
             (if platform = ''twitter'' then
                (case h of
                   TwitterHandler twitter_handler \<Rightarrow>
                     (fst (initiate_oauth_flow e twitter_handler state), self)
                 | OAuth2Handler b \<Rightarrow> (Inl (AttributeError ''initiate_oauth_flow''), self))
              else
                (case h of
                   OAuth2Handler b \<Rightarrow> (base_generate_authorization_url b state, self)
                 | TwitterHandler t \<Rightarrow>
                     (Inl (NotImplementedError ''Use initiate_oauth_flow instead''), self)))))"

text \<open>The query of \<^verbatim>\<open>_get_existing_connection\<close>.\<close>

definition get_existing_connection ::
  "db \<Rightarrow> string \<Rightarrow> string \<Rightarrow> string \<Rightarrow> error + PlatformConnection option" where
  "get_existing_connection d user_id platform puid =
     scalar_one_or_none
       (filter (\<lambda>c. conn_user_id c = user_id \<and> conn_platform c = platform
                     \<and> conn_platform_user_id c = puid) d)"

text \<open>
  \<^verbatim>\<open>_create_new_connection\<close>: the new row gets a fresh primary key and the server's
  timestamps; an insert that repeats a primary key is refused by the database.
\<close>

text \<open>\<^verbatim>\<open>token_encryption.encrypt_token(x) if x else None\<close>.\<close>

definition encrypt_optional :: "fernet \<Rightarrow> string option \<Rightarrow> error + string option" where
  "encrypt_optional cipher_suite v =
     (if truthy v
      then bind_err (encrypt_token cipher_suite (the v)) (\<lambda>c. Inr (Some c))
      else Inr None)"

text \<open>
  The three encrypted columns computed from the tokens, in the order in which both
  \<^verbatim>\<open>_create_new_connection\<close> and \<^verbatim>\<open>_update_connection_tokens\<close> evaluate them.
\<close>

definition encrypted_columns ::
  "env \<Rightarrow> OAuthTokens \<Rightarrow> error + (string \<times> string option \<times> string option)" where
  "encrypted_columns e tokens =
     bind_err (encrypt_token (token_encryption e) (access_token tokens)) (\<lambda>a.
     bind_err (encrypt_optional (token_encryption e) (refresh_token tokens)) (\<lambda>r.
     bind_err (encrypt_optional (token_encryption e) (oauth_token_secret tokens)) (\<lambda>s.
     Inr (a, r, s))))"

definition create_new_connection ::
  "env \<Rightarrow> db \<Rightarrow> string \<Rightarrow> string \<Rightarrow> OAuthTokens \<Rightarrow> UserProfile \<Rightarrow>
     (error + PlatformConnection) \<times> db" where
  "create_new_connection e d user_id platform tokens user_profile =
     (case encrypted_columns e tokens of
        Inl err \<Rightarrow> (Inl err, d)
      | Inr (a, r, s) \<Rightarrow>
         (let connection =
                \<lparr> conn_id = uuid4 e,
                  conn_user_id = user_id,
                  conn_platform = platform,
                  conn_platform_user_id = platform_user_id user_profile,
                  conn_platform_username = username user_profile,
                  conn_access_token = a,
                  conn_refresh_token = r,
                  conn_oauth_token_secret = s,
                  conn_expires_at = expires_at tokens,
                  conn_is_active = True,
                  conn_created_at = utcnow e,
                  conn_updated_at = utcnow e \<rparr>
          in if list_ex (\<lambda>c. conn_id c = conn_id connection) d
             then (Inl (IntegrityError ''platform_connections_pkey''), d)
             else (Inr connection, d @ [connection])))"

text \<open>
  \<^verbatim>\<open>_update_connection_tokens\<close>: the values written to the rows that carry the
  connection's id, and the connection as \<^verbatim>\<open>db.refresh\<close> reads it back.
\<close>

definition update_values ::
  "string \<Rightarrow> string option \<Rightarrow> string option \<Rightarrow> int option \<Rightarrow> int \<Rightarrow>
     PlatformConnection \<Rightarrow> PlatformConnection" where
  "update_values a r s expires now c =
     c\<lparr> conn_access_token := a,
        conn_refresh_token := r,
        conn_oauth_token_secret := s,
        conn_expires_at := expires,
        conn_is_active := True,
        conn_updated_at := now \<rparr>"

definition update_connection_tokens ::
  "env \<Rightarrow> db \<Rightarrow> PlatformConnection \<Rightarrow> OAuthTokens \<Rightarrow>
     (error + PlatformConnection) \<times> db" where
  "update_connection_tokens e d connection tokens =
     (case encrypted_columns e tokens of
        Inl err \<Rightarrow> (Inl err, d)
      | Inr (a, r, s) \<Rightarrow>
         (Inr (update_values a r s (expires_at tokens) (utcnow e) connection),
          map (\<lambda>c. if conn_id c = conn_id connection
                    then update_values a r s (expires_at tokens) (utcnow e) c else c) d))"

text \<open>The loop of \<^verbatim>\<open>complete_oauth\<close> that looks for the state of an OAuth 1.0a callback.\<close>

fun find_twitter_state :: "(string \<times> state_data) list \<Rightarrow> string option" where
  "find_twitter_state [] = None"
| "find_twitter_state ((stored_state, data) # rest) =
     (if st_platform data = ''twitter'' then Some stored_state else find_twitter_state rest)"

text \<open>
  The token exchange and the profile fetch of \<^verbatim>\<open>complete_oauth\<close>, inside
  \<^verbatim>\<open>async with self._get_oauth_handler(platform, redirect_uri) as handler\<close>, for the
  handler that call has just constructed.
\<close>

definition exchange_and_profile ::
  "env \<Rightarrow> oauth_handler \<Rightarrow> string \<Rightarrow> string option \<Rightarrow> string \<Rightarrow> string option \<Rightarrow>
     string option \<Rightarrow> error + (OAuthTokens \<times> UserProfile)" where
  "exchange_and_profile e h platform code state oauth_token oauth_verifier =
     (if platform = ''twitter'' then
        (case h of
           TwitterHandler t \<Rightarrow>
             (case tw_exchange_code_for_tokens e t oauth_token oauth_verifier state of
                (Inl err, t') \<Rightarrow> Inl err
              | (Inr tokens, t') \<Rightarrow>
                  bind_err
                    (tw_get_user_profile e t' (access_token tokens) (oauth_token_secret tokens))
                    (\<lambda>user_profile. Inr (tokens, user_profile)))
         | OAuth2Handler b \<Rightarrow> Inl (TypeError ''exchange_code_for_tokens''))
      else
        (case h of
           OAuth2Handler b \<Rightarrow>
             bind_err (base_exchange_code_for_tokens e b code state) (\<lambda>tokens.
             bind_err (base_get_user_profile e b (access_token tokens)) (\<lambda>user_profile.
             Inr (tokens, user_profile)))
         | TwitterHandler t \<Rightarrow> Inl (TypeError ''exchange_code_for_tokens'')))"

text \<open>
  The first step of \<^verbatim>\<open>complete_oauth\<close>: for an OAuth 1.0a callback (both
  \<^verbatim>\<open>oauth_token\<close> and \<^verbatim>\<open>oauth_verifier\<close> given) the state and the code are replaced
  by the state the loop finds and the verifier; the value of \<^verbatim>\<open>oauth_token\<close> is not
  looked at.
\<close>

definition resolve_callback ::
  "PlatformConnectionService \<Rightarrow> string option \<Rightarrow> string option \<Rightarrow> string option \<Rightarrow>
     string option \<Rightarrow> error + (string option \<times> string option)" where
  "resolve_callback self code state oauth_token oauth_verifier =
     (if truthy oauth_token \<and> truthy oauth_verifier then
        (case find_twitter_state (active_states self) of
           None \<Rightarrow> Inl (ValueError ''Invalid or expired OAuth token'')
         | Some state_found \<Rightarrow>
             (if state_found = [] then Inl (ValueError ''Invalid or expired OAuth token'')
              else Inr (Some state_found, oauth_verifier)))
      else Inr (state, code))"

text \<open>\<^verbatim>\<open>state not in self.active_states\<close>, and the lookup that follows it.\<close>

definition lookup_state ::
  "PlatformConnectionService \<Rightarrow> string option \<Rightarrow> (string \<times> state_data) option" where
  "lookup_state self state =
     (case state of
        None \<Rightarrow> None
      | Some s \<Rightarrow> (case map_of (active_states self) s of
                     None \<Rightarrow> None
                   | Some state_data \<Rightarrow> Some (s, state_data)))"

text \<open>
  \<^verbatim>\<open>complete_oauth\<close>. The result is the connection or the exception, with the service
  and the table as the call leaves them.
\<close>

definition complete_oauth ::
  "env \<Rightarrow> PlatformConnectionService \<Rightarrow> db \<Rightarrow>
     string option \<Rightarrow> string option \<Rightarrow> string option \<Rightarrow> string option \<Rightarrow>
     (error + PlatformConnection) \<times> PlatformConnectionService \<times> db" where
  "complete_oauth e self d code state oauth_token oauth_verifier =
     (case resolve_callback self code state oauth_token oauth_verifier of
        Inl err \<Rightarrow> (Inl err, self, d)
      | Inr (state, code) \<Rightarrow>
         (case lookup_state self state of
            None \<Rightarrow> (Inl (ValueError ''Invalid or expired state parameter''), self, d)
          | Some (s, data) \<Rightarrow>
             (let user_id = st_user_id data;
                  platform = st_platform data;
                  redirect = st_redirect_uri data;
                  self = self\<lparr> active_states := AList.delete s (active_states self) \<rparr>
              in (case get_oauth_handler e platform redirect of
                    Inl err \<Rightarrow> (Inl err, self, d)
                  | Inr h \<Rightarrow>
                     (case exchange_and_profile e h platform code s oauth_token oauth_verifier of
                        Inl err \<Rightarrow> (Inl err, self, d)
                      | Inr (tokens, user_profile) \<Rightarrow>
                         (case get_existing_connection d user_id platform
                                 (platform_user_id user_profile) of
                            Inl err \<Rightarrow> (Inl err, self, d)
                          | Inr (Some existing_connection) \<Rightarrow>
                             (case update_connection_tokens e d existing_connection tokens of
                                (r, d') \<Rightarrow> (r, self, d'))
                          | Inr None \<Rightarrow>
                             (case create_new_connection e d user_id platform tokens
                                     user_profile of
                                (r, d') \<Rightarrow> (r, self, d'))))))))"

text \<open>\<^verbatim>\<open>refresh_connection_token\<close>: the result and the table as the call leaves it.\<close>

definition refresh_connection_token ::
  "env \<Rightarrow> db \<Rightarrow> string \<Rightarrow> (error + PlatformConnection) \<times> db" where
  "refresh_connection_token e d connection_id =
     (case scalar_one_or_none (filter (\<lambda>c. conn_id c = connection_id) d) of
        Inl err \<Rightarrow> (Inl err, d)
      | Inr None \<Rightarrow> (Inl (ValueError ''Connection not found''), d)
      | Inr (Some connection) \<Rightarrow>
         (if \<not> truthy (conn_refresh_token connection)
          then (Inl (ValueError ''No refresh token available''), d)
          else
            (let rtoken = decrypt_token (token_encryption e) (the (conn_refresh_token connection));
                 redirect = ''http://localhost:8000/api/v1/oauth/callback''
             in (case get_oauth_handler e (conn_platform connection) redirect of
                   Inl err \<Rightarrow> (Inl err, d)
                 | Inr h \<Rightarrow>
                    (case (case h of
                             OAuth2Handler b \<Rightarrow> refresh_access_token e b rtoken
                           | TwitterHandler t \<Rightarrow> Inl (AttributeError ''refresh_access_token''))
                     of
                       Inl err \<Rightarrow> (Inl err, d)
                     | Inr new_tokens \<Rightarrow>
                        update_connection_tokens e d connection new_tokens)))))"

section \<open>A sample environment\<close>

text \<open>
  A provider to run the model on concrete inputs. It answers Twitter's request-token
  endpoint with the request token \<open>tok\<close>, LinkedIn's token endpoint with an access and
  a refresh token, and LinkedIn's profile endpoint with the member \<open>member\<close>; every
  other request gets a 404. \<open>sample_hmac\<close> stands in for HMAC-SHA1 (the sample provider
  does not check signatures).
\<close>

definition sample_settings :: settings where
  "sample_settings =
     \<lparr> TWITTER_API_KEY = ''tw-key'', TWITTER_API_SECRET = ''tw-secret'',
       LINKEDIN_CLIENT_ID = ''li-id'', LINKEDIN_CLIENT_SECRET = ''li-secret'',
       META_APP_ID = ''meta-id'', META_APP_SECRET = ''meta-secret'' \<rparr>"

definition sample_hmac :: "bytes \<Rightarrow> bytes \<Rightarrow> bytes" where
  "sample_hmac key msg = take 20 (key @ msg @ replicate 20 (CHR ''x''))"

definition sample_client :: "string \<Rightarrow> string \<Rightarrow> http_request \<Rightarrow> error + http_response" where
  "sample_client tok member req =
     (if req_url req = ''https://api.x.com/oauth/request_token'' then
        Inr \<lparr> status_code = 200,
              resp_text = ''oauth_token='' @ tok @ ''&oauth_token_secret=s-'' @ tok
                          @ ''&oauth_callback_confirmed=true'',
              json_body = None \<rparr>
      else if req_url req = ''https://www.linkedin.com/oauth/v2/accessToken'' then
        Inr \<lparr> status_code = 200, resp_text = [],
              json_body = Some (JObj [(''access_token'', JStr (''at-'' @ tok)),
                                     (''refresh_token'', JStr (''rt-'' @ tok)),
                                     (''expires_in'', JInt 3600)]) \<rparr>
      else if req_url req = ''https://api.linkedin.com/v2/userinfo'' then
        Inr \<lparr> status_code = 200, resp_text = [],
              json_body = Some (JObj [(''sub'', JStr member),
                                     (''email'', JStr (member @ ''@example.org''))]) \<rparr>
      else Inr \<lparr> status_code = 404, resp_text = ''not found'', json_body = None \<rparr>)"

text \<open>
  The environment of one call: the state token and row id the random sources give, the
  time, and the provider's answers.
\<close>

definition sample_env :: "string \<Rightarrow> string \<Rightarrow> int \<Rightarrow> string \<Rightarrow> string \<Rightarrow> env" where
  "sample_env state_token row_id now tok member =
     \<lparr> env_settings = sample_settings,
       client = sample_client tok member,
       utcnow = now,
       token_urlsafe = state_token,
       token_hex = (\<lambda>n. ''0123456789abcdef0123456789abcdef''),
       uuid4 = row_id,
       hmac_sha1 = sample_hmac,
       token_encryption = sample_fernet ''k'' \<rparr>"

definition empty_service :: PlatformConnectionService where
  "empty_service = \<lparr> active_states = [] \<rparr>"

text \<open>
  Two users, A and B, start the Twitter flow one after the other; the provider hands
  out the request tokens \<open>tA\<close> and \<open>tB\<close>. \<open>two_pending\<close> is the service after both
  calls of \<open>initiate_oauth\<close>.
\<close>

definition env_A :: env where
  "env_A = sample_env ''SA'' ''id1'' 100 ''tA'' ''m1''"

definition env_B :: env where
  "env_B = sample_env ''SB'' ''id2'' 101 ''tB'' ''m2''"

definition two_pending :: PlatformConnectionService where
  "two_pending =
     snd (initiate_oauth env_B
            (snd (initiate_oauth env_A empty_service ''twitter'' ''userA'' ''https://app/cb''))
            ''twitter'' ''userB'' ''https://app/cb'')"

text \<open>
  A LinkedIn flow of user A: \<open>linkedin_pending\<close> is the service after
  \<open>initiate_oauth\<close> at time 100, \<open>sample_row\<close> the row a completion at time \<open>now\<close>
  writes. \<open>env_late\<close> is an environment whose clock is a billion seconds later.
\<close>

definition linkedin_pending :: PlatformConnectionService where
  "linkedin_pending =
     snd (initiate_oauth env_A empty_service ''linkedin'' ''userA'' ''https://app/cb'')"

definition sample_row :: "int \<Rightarrow> PlatformConnection" where
  "sample_row now =
     \<lparr> conn_id = ''id1'', conn_user_id = ''userA'', conn_platform = ''linkedin'',
       conn_platform_user_id = ''m1'', conn_platform_username = ''m1'',
       conn_access_token = ''gGF0LXRBIg=='', conn_refresh_token = Some ''gHJ0LXRBMw=='',
       conn_oauth_token_secret = None, conn_expires_at = Some (now + 3600),
       conn_is_active = True, conn_created_at = now, conn_updated_at = now \<rparr>"

definition env_late :: env where
  "env_late = sample_env ''SL'' ''id1'' 1000000100 ''tA'' ''m1''"

text \<open>The service with the creation time of every pending state replaced.\<close>

definition with_created_at ::
  "(string \<Rightarrow> int) \<Rightarrow> PlatformConnectionService \<Rightarrow> PlatformConnectionService" where
  "with_created_at f self =
     self\<lparr> active_states :=
            map (\<lambda>(k, v). (k, v\<lparr> st_created_at := f k \<rparr>)) (active_states self) \<rparr>"

text \<open>A stored Twitter connection, as \<open>create_new_connection\<close> lays out OAuth 1.0a tokens.\<close>

definition sample_twitter_row :: PlatformConnection where
  "sample_twitter_row =
     \<lparr> conn_id = ''id7'', conn_user_id = ''userA'', conn_platform = ''twitter'',
       conn_platform_user_id = ''42'', conn_platform_username = ''a'',
       conn_access_token = ''gGF0LXRBIg=='', conn_refresh_token = None,
       conn_oauth_token_secret = Some ''gHJ0LXRBMw=='', conn_expires_at = None,
       conn_is_active = True, conn_created_at = 50, conn_updated_at = 50 \<rparr>"

section \<open>Rows per connection triple, and sequences of completions\<close>

text \<open>The number of rows for a triple (user, platform, platform user).\<close>

definition triple_count :: "db \<Rightarrow> string \<Rightarrow> string \<Rightarrow> string \<Rightarrow> nat" where
  "triple_count d user_id platform puid =
     length (filter (\<lambda>c. conn_user_id c = user_id \<and> conn_platform c = platform
                           \<and> conn_platform_user_id c = puid) d)"

text \<open>
  One callback delivered to \<^verbatim>\<open>complete_oauth\<close>, with the environment it runs in, and
  the service and table after a sequence of callbacks handled one after the other.
\<close>

record completion =
  c_env :: env
  c_code :: "string option"
  c_state :: "string option"
  c_oauth_token :: "string option"
  c_oauth_verifier :: "string option"

fun complete_all ::
  "completion list \<Rightarrow> PlatformConnectionService \<Rightarrow> db \<Rightarrow> PlatformConnectionService \<times> db" where
  "complete_all [] self d = (self, d)"
| "complete_all (c # cs) self d =
     (case complete_oauth (c_env c) self d (c_code c) (c_state c) (c_oauth_token c)
             (c_oauth_verifier c) of
        (r, self', d') \<Rightarrow> complete_all cs self' d')"

text \<open>
  User A authorises LinkedIn twice (states \<open>SA\<close> and \<open>SC\<close>, both pending), as the
  same LinkedIn member; the callbacks arrive at times 100 and 300.
\<close>

definition env_C :: env where
  "env_C = sample_env ''SX'' ''id2'' 300 ''tC'' ''m1''"

definition twice_pending :: PlatformConnectionService where
  "twice_pending =
     \<lparr> active_states =
         [(''SA'', \<lparr> st_user_id = ''userA'', st_platform = ''linkedin'',
                     st_redirect_uri = ''https://app/cb'', st_created_at = 100 \<rparr>),
          (''SC'', \<lparr> st_user_id = ''userA'', st_platform = ''linkedin'',
                     st_redirect_uri = ''https://app/cb'', st_created_at = 200 \<rparr>)] \<rparr>"

definition twice_callbacks :: "completion list" where
  "twice_callbacks =
     [\<lparr> c_env = env_A, c_code = Some ''code1'', c_state = Some ''SA'',
         c_oauth_token = None, c_oauth_verifier = None \<rparr>,
      \<lparr> c_env = env_C, c_code = Some ''code2'',
         c_state = Some ''SC'', c_oauth_token = None, c_oauth_verifier = None \<rparr>]"

text \<open>
  The second of these callbacks on its own: the service and the row after the first,
  the tokens and the profile the provider returns for the second, and the row as the
  second completion leaves it.
\<close>

definition once_completed :: PlatformConnectionService where
  "once_completed =
     \<lparr> active_states =
         [(''SC'', \<lparr> st_user_id = ''userA'', st_platform = ''linkedin'',
                     st_redirect_uri = ''https://app/cb'', st_created_at = 200 \<rparr>)] \<rparr>"

definition tokens_C :: OAuthTokens where
  "tokens_C =
     \<lparr> access_token = ''at-tC'', refresh_token = Some ''rt-tC'', expires_in = Some 3600,
       expires_at = Some 3900, token_type = ''Bearer'', tokens_scope = None,
       oauth_token_secret = None \<rparr>"

definition profile_m1 :: UserProfile where
  "profile_m1 =
     \<lparr> platform_user_id = ''m1'', username = ''m1'', display_name = None,
       email = Some ''m1@example.org'', profile_image_url = None \<rparr>"

definition updated_row :: PlatformConnection where
  "updated_row =
     \<lparr> conn_id = ''id1'', conn_user_id = ''userA'', conn_platform = ''linkedin'',
       conn_platform_user_id = ''m1'', conn_platform_username = ''m1'',
       conn_access_token = ''gGF0LXRDJA=='', conn_refresh_token = Some ''gHJ0LXRDNQ=='',
       conn_oauth_token_secret = None, conn_expires_at = Some 3900,
       conn_is_active = True, conn_created_at = 100, conn_updated_at = 300 \<rparr>"

section \<open>The OAuth 1.0a signature as the specification words it\<close>

text \<open>
  Every parameter name and value is percent-encoded (RFC 3986: every byte of the UTF-8
  text that is not an unreserved character becomes \<^verbatim>\<open>%XX\<close>), the encoded pairs are
  sorted by encoded key and joined as \<^verbatim>\<open>key=value\<close> with \<^verbatim>\<open>&\<close>; the base string is
  the method in upper case, the encoded URL and the encoded parameter string, joined
  with \<^verbatim>\<open>&\<close>; the signing key is the encoded consumer secret, \<^verbatim>\<open>&\<close>, the encoded
  token secret; the signature is the base64 text of the HMAC-SHA1 of the base string
  under that key. These definitions take each string as its UTF-8 bytes.
\<close>

definition rfc3986_unreserved :: "char \<Rightarrow> bool" where
  "rfc3986_unreserved c \<longleftrightarrow>
     c \<in> set ''ABCDEFGHIJKLMNOPQRSTUVWXYZabcdefghijklmnopqrstuvwxyz0123456789-._~''"

definition percent_encode :: "bytes \<Rightarrow> string" where
  "percent_encode bs =
     concat (map (\<lambda>c. if rfc3986_unreserved c then [c]
                       else [CHR ''%'', ''0123456789ABCDEF'' ! (byte c div 16),
                             ''0123456789ABCDEF'' ! (byte c mod 16)]) bs)"

definition encode_pair :: "string \<times> string \<Rightarrow> string \<times> string" where
  "encode_pair p = (percent_encode (fst p), percent_encode (snd p))"

definition spec_param_string :: "(string \<times> string) list \<Rightarrow> string" where
  "spec_param_string params =
     join ''&'' (map (\<lambda>(k, v). k @ ''='' @ v) (sort_key fst (map encode_pair params)))"

definition spec_base_string :: "string \<Rightarrow> string \<Rightarrow> (string \<times> string) list \<Rightarrow> string" where
  "spec_base_string method url params =
     upper method @ ''&'' @ percent_encode url @ ''&''
       @ percent_encode (spec_param_string params)"



section \<open>Base64: decoding inverts encoding\<close>

lemma b64_alphabet_length: "length b64_alphabet = 64"
  by (simp add: b64_alphabet_def)

lemma b64_alphabet_distinct: "distinct b64_alphabet"
  by (simp add: b64_alphabet_def)

lemma table_a2b_b2a: "i < 64 \<Longrightarrow> table_a2b_base64 (table_b2a_base64 i) = Some i"
  unfolding table_a2b_base64_def table_b2a_base64_def
  using map_of_zip_nth [of b64_alphabet "[0..<64]" i]
  by (simp add: b64_alphabet_length b64_alphabet_distinct)

lemma b2a_in_alphabet: "i < 64 \<Longrightarrow> table_b2a_base64 i \<in> set b64_alphabet"
  by (simp add: table_b2a_base64_def b64_alphabet_length)

lemma pad_not_in_alphabet: "CHR ''='' \<notin> set b64_alphabet"
  by (simp add: b64_alphabet_def)

lemma b2a_not_pad: "i < 64 \<Longrightarrow> table_b2a_base64 i \<noteq> CHR ''=''"
  using b2a_in_alphabet [of i] pad_not_in_alphabet by metis

lemma byte_less: "byte c < 256"
  by (simp add: byte_def)

lemma char_of_byte: "char_of (byte c) = c"
  by (simp add: byte_def)

lemma digit_bounds:
  "byte a div 4 < 64"
  "(byte a mod 4) * 16 < 64"
  "(byte a mod 4) * 16 + byte b div 16 < 64"
  "(byte b mod 16) * 4 < 64"
  "(byte b mod 16) * 4 + byte c div 64 < 64"
  "byte c mod 64 < 64"
  using byte_less [of a] byte_less [of b] byte_less [of c] by simp_all


lemma regroup1: "(x::nat) div 4 * 4 + (x mod 4 * 16 + y div 16) div 16 = x" if "y < 256"
  using that by simp

lemma regroup2:
  "(x mod 4 * 16 + y div 16) mod 16 * 16 + (y mod 16 * 4 + z div 64) div 4 = (y::nat)"
  if "y < 256" "z < 256"
proof -
  have a: "(x mod 4 * 16 + y div 16) mod 16 = y div 16" using that by simp
  have b: "(y mod 16 * 4 + z div 64) div 4 = y mod 16" using that by simp
  show ?thesis unfolding a b by simp
qed

lemma regroup3: "(y mod 16 * 4 + z div 64) mod 4 * 64 + z mod 64 = (z::nat)" if "z < 256"
proof -
  have a: "(y mod 16 * 4 + z div 64) mod 4 = z div 64" using that by simp
  show ?thesis unfolding a by simp
qed

text \<open>One step of the decoder on a digit the encoder wrote, for each position in the quad.\<close>

lemma a2b_digit0:
  "i < 64 \<Longrightarrow> a2b_loop 0 l p out (table_b2a_base64 i # rest) = a2b_loop 1 i 0 out rest"
  by (simp add: table_a2b_b2a b2a_not_pad)

lemma a2b_digit1:
  "i < 64 \<Longrightarrow> a2b_loop 1 l p out (table_b2a_base64 i # rest) =
     a2b_loop 2 (i mod 16) 0 (out @ [char_of (l * 4 + i div 16)]) rest"
  by (simp add: table_a2b_b2a b2a_not_pad)

lemma a2b_digit2:
  "i < 64 \<Longrightarrow> a2b_loop 2 l p out (table_b2a_base64 i # rest) =
     a2b_loop 3 (i mod 4) 0 (out @ [char_of (l * 16 + i div 4)]) rest"
  by (simp add: table_a2b_b2a b2a_not_pad)

lemma a2b_digit3:
  "i < 64 \<Longrightarrow> a2b_loop 3 l p out (table_b2a_base64 i # rest) =
     a2b_loop 0 0 0 (out @ [char_of (l * 64 + i)]) rest"
  by (simp add: table_a2b_b2a b2a_not_pad)

lemma a2b_pad3: "a2b_loop 3 l 0 out (CHR ''='' # rest) = Inr out"
  by simp

lemma a2b_pad2: "a2b_loop 2 l 0 out (CHR ''='' # CHR ''='' # rest) = Inr out"
  by simp



lemma a2b_quad:
  "a2b_loop 0 0 0 out
     (table_b2a_base64 (byte a div 4) #
      table_b2a_base64 ((byte a mod 4) * 16 + byte b div 16) #
      table_b2a_base64 ((byte b mod 16) * 4 + byte c div 64) #
      table_b2a_base64 (byte c mod 64) # rest)
   = a2b_loop 0 0 0 (out @ [a, b, c]) rest"
proof -
  have "a2b_loop 0 0 0 out
     (table_b2a_base64 (byte a div 4) #
      table_b2a_base64 ((byte a mod 4) * 16 + byte b div 16) #
      table_b2a_base64 ((byte b mod 16) * 4 + byte c div 64) #
      table_b2a_base64 (byte c mod 64) # rest)
    = a2b_loop 0 0 0
        (((out @ [char_of (byte a div 4 * 4 + ((byte a mod 4) * 16 + byte b div 16) div 16)])
          @ [char_of (((byte a mod 4) * 16 + byte b div 16) mod 16 * 16
                      + ((byte b mod 16) * 4 + byte c div 64) div 4)])
          @ [char_of (((byte b mod 16) * 4 + byte c div 64) mod 4 * 64 + byte c mod 64)]) rest"
    by (simp only: a2b_digit0 a2b_digit1 a2b_digit2 a2b_digit3 digit_bounds)
  also have "\<dots> = a2b_loop 0 0 0 (out @ [a, b, c]) rest"
    by (simp only: regroup1 [OF byte_less] regroup2 [OF byte_less byte_less]
          regroup3 [OF byte_less] char_of_byte append_assoc append_Cons append_Nil)
  finally show ?thesis .
qed

lemma a2b_tail1:
  "a2b_loop 0 0 0 out
     [table_b2a_base64 (byte a div 4), table_b2a_base64 ((byte a mod 4) * 16),
      CHR ''='', CHR ''='']
   = Inr (out @ [a])"
proof -
  have e: "byte a div 4 * 4 + (byte a mod 4 * 16) div 16 = byte a"
    by simp
  show ?thesis
    by (simp only: a2b_digit0 a2b_digit1 digit_bounds a2b_pad2 e char_of_byte)
qed

lemma a2b_tail2:
  "a2b_loop 0 0 0 out
     [table_b2a_base64 (byte a div 4),
      table_b2a_base64 ((byte a mod 4) * 16 + byte b div 16),
      table_b2a_base64 ((byte b mod 16) * 4),
      CHR ''='']
   = Inr (out @ [a, b])"
proof -
  have e: "((byte a mod 4) * 16 + byte b div 16) mod 16 * 16 + ((byte b mod 16) * 4) div 4 = byte b"
    using regroup2 [of "byte b" 0 "byte a"] byte_less [of b] by simp
  show ?thesis
    by (simp only: a2b_digit0 a2b_digit1 a2b_digit2 digit_bounds a2b_pad3 e
          regroup1 [OF byte_less] char_of_byte append_assoc append_Cons append_Nil)
qed

lemma a2b_loop_b2a: "a2b_loop 0 0 0 out (b2a_base64 bs) = Inr (out @ bs)"
proof (induction bs arbitrary: out rule: b2a_base64.induct)
  case 1
  show ?case by simp
next
  case (2 a)
  show ?case by (simp only: b2a_base64.simps a2b_tail1)
next
  case (3 a b)
  show ?case by (simp only: b2a_base64.simps a2b_tail2)
next
  case (4 a b c rest)
  show ?case
    by (simp only: b2a_base64.simps append_Cons append_Nil a2b_quad "4.IH" append_assoc)
qed

lemma b64decode_b64encode: "b64decode (b64encode bs) = Inr bs"
  by (simp add: b64decode_def b64encode_def a2b_base64_def a2b_loop_b2a)



lemma b2a_base64_chars: "set (b2a_base64 bs) \<subseteq> insert (CHR ''='') (set b64_alphabet)"
  by (induction bs rule: b2a_base64.induct) (simp_all add: b2a_in_alphabet digit_bounds)

lemma urlsafe_translation_inverse:
  "c \<in> insert (CHR ''='') (set b64_alphabet) \<Longrightarrow>
     urlsafe_decode_translation (urlsafe_encode_translation c) = c"
  by (auto simp: urlsafe_decode_translation_def urlsafe_encode_translation_def b64_alphabet_def)

lemma urlsafe_b64decode_b64encode: "urlsafe_b64decode (urlsafe_b64encode bs) = Inr bs"
proof -
  have "map urlsafe_decode_translation (map urlsafe_encode_translation (b2a_base64 bs))
          = b2a_base64 bs"
    using b2a_base64_chars [of bs]
    by (simp add: map_idI urlsafe_translation_inverse subset_iff)
  then show ?thesis
    by (simp add: urlsafe_b64decode_def urlsafe_b64encode_def b64decode_def b64encode_def
          a2b_base64_def a2b_loop_b2a)
qed

lemma b2a_base64_nonempty: "bs \<noteq> [] \<Longrightarrow> b2a_base64 bs \<noteq> []"
  by (induction bs rule: b2a_base64.induct) simp_all

section \<open>ASCII text\<close>


lemma ascii_Cons: "ascii (c # s) \<longleftrightarrow> byte c < 128 \<and> ascii s"
  by (simp add: ascii_def)



lemma ascii_utf8_valid: "ascii s \<Longrightarrow> utf8_valid s"
  by (induction s) (simp_all add: ascii_Cons)

lemma str_encode_ascii: "ascii s \<Longrightarrow> str_encode s = Inr s"
  by (simp add: str_encode_def ascii_utf8_valid)

lemma bytes_decode_ascii: "ascii s \<Longrightarrow> bytes_decode s = Inr s"
  by (simp add: bytes_decode_def ascii_utf8_valid)

lemma b64_alphabet_ascii: "ascii b64_alphabet"
  by (simp add: b64_alphabet_def ascii_def byte_def)

lemma b2a_base64_ascii: "ascii (b2a_base64 bs)"
proof -
  have "c \<in> insert (CHR ''='') (set b64_alphabet) \<Longrightarrow> byte c < 128" for c
    using b64_alphabet_ascii by (auto simp: ascii_def list_all_iff byte_def)
  then show ?thesis
    using b2a_base64_chars [of bs] by (auto simp: ascii_def list_all_iff)
qed

lemma urlsafe_b64encode_ascii: "ascii (urlsafe_b64encode bs)"
proof -
  have "byte c < 128 \<Longrightarrow> byte (urlsafe_encode_translation c) < 128" for c
    by (simp add: urlsafe_encode_translation_def byte_def)
  then show ?thesis
    using b2a_base64_ascii [of bs]
    by (auto simp: ascii_def list_all_iff urlsafe_b64encode_def b64encode_def)
qed

section \<open>Token encryption\<close>

lemma sample_fernet_correct: "fernet_correct (sample_fernet key)"
  by (simp add: fernet_correct_def sample_fernet_def)

lemma encrypt_token_valid:
  "utf8_valid x \<Longrightarrow> x \<noteq> [] \<Longrightarrow>
     encrypt_token cs x = Inr (urlsafe_b64encode (fernet_encrypt cs x))"
  by (simp add: encrypt_token_def str_encode_def bind_err_def
        bytes_decode_ascii urlsafe_b64encode_ascii)

lemma urlsafe_b64encode_nonempty: "t \<noteq> [] \<Longrightarrow> urlsafe_b64encode t \<noteq> []"
  by (simp add: urlsafe_b64encode_def b64encode_def b2a_base64_nonempty)

lemma decrypt_token_stored:
  "t \<noteq> [] \<Longrightarrow>
     decrypt_token cs (urlsafe_b64encode t)
       = (case fernet_decrypt cs t of
            None \<Rightarrow> []
          | Some p \<Rightarrow> (case bytes_decode p of Inl e \<Rightarrow> [] | Inr s \<Rightarrow> s))"
  by (simp add: decrypt_token_def urlsafe_b64encode_nonempty
        str_encode_ascii urlsafe_b64encode_ascii urlsafe_b64decode_b64encode)

lemma decrypt_token_empty_stored: "decrypt_token cs (urlsafe_b64encode []) = []"
  by (simp add: decrypt_token_def urlsafe_b64encode_def b64encode_def)

text \<open>
  Claim C5, as the code has it. For every string \<open>x\<close> that has a UTF-8 encoding, the
  empty string included, \<open>encrypt_token\<close> succeeds and decrypting its result under the
  same cipher suite gives \<open>x\<close> back; for a string that holds a surrogate,
  \<open>encrypt_token\<close> raises \<open>UnicodeEncodeError\<close>. The cipher suite is any that meets
  the contract of Fernet.
\<close>

theorem decrypt_encrypt_roundtrip:
  assumes "fernet_correct cipher_suite"
  shows "(utf8_valid x \<longrightarrow>
            (\<exists>c. encrypt_token cipher_suite x = Inr c \<and> decrypt_token cipher_suite c = x))
       \<and> (\<not> utf8_valid x \<longrightarrow> encrypt_token cipher_suite x = Inl UnicodeEncodeError)"
proof (intro conjI impI)
  assume v: "utf8_valid x"
  show "\<exists>c. encrypt_token cipher_suite x = Inr c \<and> decrypt_token cipher_suite c = x"
  proof (cases "x = []")
    case True
    then show ?thesis by (simp add: decrypt_token_def encrypt_token_def)
  next
    case False
    have ne: "fernet_encrypt cipher_suite x \<noteq> []"
      using assms by (simp add: fernet_correct_def)
    have dec: "fernet_decrypt cipher_suite (fernet_encrypt cipher_suite x) = Some x"
      using assms by (simp add: fernet_correct_def)
    have "decrypt_token cipher_suite (urlsafe_b64encode (fernet_encrypt cipher_suite x)) = x"
      using v by (simp add: decrypt_token_stored [OF ne] dec bytes_decode_def)
    with encrypt_token_valid [OF v False] show ?thesis by simp
  qed
next
  assume n: "\<not> utf8_valid x"
  then have "x \<noteq> []" by auto
  with n show "encrypt_token cipher_suite x = Inl UnicodeEncodeError"
    by (simp add: encrypt_token_def str_encode_def bind_err_def)
qed

lemma surrogate_not_valid: "\<not> utf8_valid [CHR 0xED, CHR 0xA0, CHR 0x80]"
  by (simp add: byte_def utf8_cont_def)

theorem decrypt_encrypt_roundtrip_witness:
  "fernet_correct (sample_fernet ''k'')
   \<and> utf8_valid ''tok'' \<and> utf8_valid [] \<and> \<not> utf8_valid [CHR 0xED, CHR 0xA0, CHR 0x80]
   \<and> (\<exists>c. encrypt_token (sample_fernet ''k'') ''tok'' = Inr c
          \<and> decrypt_token (sample_fernet ''k'') c = ''tok'')
   \<and> (\<exists>c. encrypt_token (sample_fernet ''k'') [] = Inr c
          \<and> decrypt_token (sample_fernet ''k'') c = [])
   \<and> encrypt_token (sample_fernet ''k'') [CHR 0xED, CHR 0xA0, CHR 0x80]
        = Inl UnicodeEncodeError"
proof -
  have c: "fernet_correct (sample_fernet ''k'')" by (rule sample_fernet_correct)
  have v: "utf8_valid ''tok''" by (simp add: byte_def)
  have e: "utf8_valid []" by simp
  show ?thesis
    using c v e surrogate_not_valid
      decrypt_encrypt_roundtrip [OF c, of "''tok''"]
      decrypt_encrypt_roundtrip [OF c, of "[]"]
      decrypt_encrypt_roundtrip [OF c, of "[CHR 0xED, CHR 0xA0, CHR 0x80]"]
    by (simp only: simp_thms)
qed

text \<open>
  The claim as stated speaks of every string. For the string made of the lone surrogate
  U+D800 (represented \<open>ED A0 80\<close>) there is no ciphertext to decrypt:
  \<open>encrypt_token\<close> raises.
\<close>

theorem encrypt_surrogate_counterexample:
  "encrypt_token (sample_fernet ''k'') [CHR 0xED, CHR 0xA0, CHR 0x80] = Inl UnicodeEncodeError"
  by code_simp

text \<open>
  Claim C1, as the code has it. On every ciphertext on which encoding, base64 decoding,
  Fernet or UTF-8 decoding fails, \<open>decrypt_token\<close> returns the empty string: the
  failure is caught inside the function and no error reaches the caller. This covers
  the stored form of any token \<open>t\<close> that Fernet rejects under the current key, a
  tampered one for instance, and the ciphertext that \<open>encrypt_token\<close> made under a
  different key.
\<close>

theorem decrypt_failure_returns_empty:
  "(str_encode c = Inl e1 \<longrightarrow> decrypt_token cs c = [])
   \<and> (str_encode c = Inr b \<and> urlsafe_b64decode b = Inl e2 \<longrightarrow> decrypt_token cs c = [])
   \<and> (str_encode c = Inr b \<and> urlsafe_b64decode b = Inr d \<and> fernet_decrypt cs d = None
        \<longrightarrow> decrypt_token cs c = [])
   \<and> (str_encode c = Inr b \<and> urlsafe_b64decode b = Inr d \<and> fernet_decrypt cs d = Some p
        \<and> bytes_decode p = Inl e3 \<longrightarrow> decrypt_token cs c = [])
   \<and> (fernet_decrypt cs t = None \<longrightarrow> decrypt_token cs (urlsafe_b64encode t) = [])
   \<and> (utf8_valid x \<and> x \<noteq> [] \<and> fernet_decrypt cs (fernet_encrypt cs' x) = None
        \<longrightarrow> (\<exists>c'. encrypt_token cs' x = Inr c' \<and> decrypt_token cs c' = []))"
proof (intro conjI impI)
  assume "fernet_decrypt cs t = None"
  then show "decrypt_token cs (urlsafe_b64encode t) = []"
    by (cases "t = []") (simp_all add: decrypt_token_empty_stored decrypt_token_stored)
next
  assume a: "utf8_valid x \<and> x \<noteq> [] \<and> fernet_decrypt cs (fernet_encrypt cs' x) = None"
  then have "decrypt_token cs (urlsafe_b64encode (fernet_encrypt cs' x)) = []"
    by (cases "fernet_encrypt cs' x = []")
       (simp_all add: decrypt_token_empty_stored decrypt_token_stored)
  with a encrypt_token_valid [of x cs']
  show "\<exists>c'. encrypt_token cs' x = Inr c' \<and> decrypt_token cs c' = []" by simp
qed (simp_all add: decrypt_token_def)


lemma sample_failures:
  "str_encode [CHR 0xED, CHR 0xA0, CHR 0x80] = Inl UnicodeEncodeError"
  "str_encode ''A'' = Inr ''A''
     \<and> urlsafe_b64decode ''A'' = Inl (BinasciiError ''Invalid base64-encoded string'')"
  "str_encode ''gHRva7o='' = Inr ''gHRva7o=''
     \<and> urlsafe_b64decode ''gHRva7o='' = Inr [CHR 0x80, CHR ''t'', CHR ''o'', CHR ''k'', CHR 0xBA]
     \<and> fernet_decrypt (sample_fernet ''k'') [CHR 0x80, CHR ''t'', CHR ''o'', CHR ''k'', CHR 0xBA]
         = None"
  "str_encode ''gP9q'' = Inr ''gP9q''
     \<and> urlsafe_b64decode ''gP9q'' = Inr [CHR 0x80, CHR 0xFF, CHR ''j'']
     \<and> fernet_decrypt (sample_fernet ''k'') [CHR 0x80, CHR 0xFF, CHR ''j''] = Some [CHR 0xFF]
     \<and> bytes_decode [CHR 0xFF] = Inl UnicodeDecodeError"
  "utf8_valid ''tok'' \<and> ''tok'' \<noteq> []
     \<and> fernet_decrypt (sample_fernet ''j'') (fernet_encrypt (sample_fernet ''k'') ''tok'') = None"
  by code_simp+

theorem decrypt_failure_returns_empty_witness:
  "(str_encode [CHR 0xED, CHR 0xA0, CHR 0x80] = Inl UnicodeEncodeError
      \<and> decrypt_token (sample_fernet ''k'') [CHR 0xED, CHR 0xA0, CHR 0x80] = [])
   \<and> ((str_encode ''A'' = Inr ''A''
        \<and> urlsafe_b64decode ''A'' = Inl (BinasciiError ''Invalid base64-encoded string''))
      \<and> decrypt_token (sample_fernet ''k'') ''A'' = [])
   \<and> ((str_encode ''gHRva7o='' = Inr ''gHRva7o=''
        \<and> urlsafe_b64decode ''gHRva7o=''
             = Inr [CHR 0x80, CHR ''t'', CHR ''o'', CHR ''k'', CHR 0xBA]
        \<and> fernet_decrypt (sample_fernet ''k'')
             [CHR 0x80, CHR ''t'', CHR ''o'', CHR ''k'', CHR 0xBA] = None)
      \<and> decrypt_token (sample_fernet ''k'') ''gHRva7o='' = [])
   \<and> ((str_encode ''gP9q'' = Inr ''gP9q''
        \<and> urlsafe_b64decode ''gP9q'' = Inr [CHR 0x80, CHR 0xFF, CHR ''j'']
        \<and> fernet_decrypt (sample_fernet ''k'') [CHR 0x80, CHR 0xFF, CHR ''j''] = Some [CHR 0xFF]
        \<and> bytes_decode [CHR 0xFF] = Inl UnicodeDecodeError)
      \<and> decrypt_token (sample_fernet ''k'') ''gP9q'' = [])
   \<and> decrypt_token (sample_fernet ''k'')
        (urlsafe_b64encode [CHR 0x80, CHR ''t'', CHR ''o'', CHR ''k'', CHR 0xBA]) = []
   \<and> ((utf8_valid ''tok'' \<and> ''tok'' \<noteq> []
        \<and> fernet_decrypt (sample_fernet ''j'') (fernet_encrypt (sample_fernet ''k'') ''tok'')
             = None)
      \<and> (\<exists>c'. encrypt_token (sample_fernet ''k'') ''tok'' = Inr c'
             \<and> decrypt_token (sample_fernet ''j'') c' = []))"
proof -
  note f = sample_failures
  note t = decrypt_failure_returns_empty
  have a1: "decrypt_token (sample_fernet ''k'') [CHR 0xED, CHR 0xA0, CHR 0x80] = []"
    using t [THEN conjunct1] f(1) by blast
  have a2: "decrypt_token (sample_fernet ''k'') ''A'' = []"
    using t [THEN conjunct2, THEN conjunct1] f(2) by blast
  have a3: "decrypt_token (sample_fernet ''k'') ''gHRva7o='' = []"
    using t [THEN conjunct2, THEN conjunct2, THEN conjunct1] f(3) by blast
  have a4: "decrypt_token (sample_fernet ''k'') ''gP9q'' = []"
    using t [THEN conjunct2, THEN conjunct2, THEN conjunct2, THEN conjunct1] f(4) by blast
  have a5: "decrypt_token (sample_fernet ''k'')
        (urlsafe_b64encode [CHR 0x80, CHR ''t'', CHR ''o'', CHR ''k'', CHR 0xBA]) = []"
    using t [THEN conjunct2, THEN conjunct2, THEN conjunct2, THEN conjunct2, THEN conjunct1]
      f(3) by blast
  have a6: "\<exists>c'. encrypt_token (sample_fernet ''k'') ''tok'' = Inr c'
             \<and> decrypt_token (sample_fernet ''j'') c' = []"
    using t [THEN conjunct2, THEN conjunct2, THEN conjunct2, THEN conjunct2, THEN conjunct2]
      f(5) by blast
  show ?thesis
    using f a1 a2 a3 a4 a5 a6 by (simp only: simp_thms)
qed

text \<open>
  The claim as stated asks for an error and forbids the empty string. Under the key
  \<open>k\<close> the token \<open>tok\<close> encrypts to \<open>gHRva7k=\<close>; with its check byte changed
  (\<open>gHRva7o=\<close>), or under the other key \<open>j\<close>, decryption returns the empty string.
\<close>

theorem decrypt_tampered_counterexample:
  "encrypt_token (sample_fernet ''k'') ''tok'' = Inr ''gHRva7k=''
   \<and> decrypt_token (sample_fernet ''k'') ''gHRva7k='' = ''tok''
   \<and> decrypt_token (sample_fernet ''k'') ''gHRva7o='' = []
   \<and> decrypt_token (sample_fernet ''j'') ''gHRva7k='' = []"
  by code_simp

section \<open>The connection service\<close>

lemma get_oauth_handler_twitter:
  "get_oauth_handler e ''twitter'' r = Inr (TwitterHandler (TwitterOAuthHandler_init e r))"
  by (simp add: get_oauth_handler_def oauth_handlers_def)

text \<open>A handler object that was just constructed holds no request token.\<close>

lemma tw_exchange_fresh_handler:
  "tw_exchange_code_for_tokens e (TwitterOAuthHandler_init e' r) oauth_token oauth_verifier s
     = (Inl (Exception ''Invalid state or expired request token''), TwitterOAuthHandler_init e' r)"
  by (simp add: tw_exchange_code_for_tokens_def TwitterOAuthHandler_init_def)

lemma exchange_and_profile_twitter:
  "exchange_and_profile e (TwitterHandler (TwitterOAuthHandler_init e' r)) ''twitter''
       code s oauth_token oauth_verifier
     = Inl (Exception ''Invalid state or expired request token'')"
  by (simp add: exchange_and_profile_def tw_exchange_fresh_handler)

lemma find_twitter_state_Some:
  "distinct (map fst xs) \<Longrightarrow> find_twitter_state xs = Some s \<Longrightarrow>
     \<exists>data. map_of xs s = Some data \<and> st_platform data = ''twitter''"
proof (induction xs rule: find_twitter_state.induct)
  case 1
  then show ?case by simp
next
  case (2 stored_state data rest)
  show ?case
  proof (cases "st_platform data = ''twitter''")
    case True
    with "2.prems" show ?thesis by simp
  next
    case False
    with "2.prems" have f: "find_twitter_state rest = Some s" and d: "distinct (map fst rest)"
      and n: "stored_state \<notin> fst ` set rest" by simp_all
    from "2.IH" [OF False d f] obtain data' where
      m: "map_of rest s = Some data'" and t: "st_platform data' = ''twitter''" by blast
    from m have "s \<in> fst ` set rest" by (metis map_of_eq_None_iff option.distinct(1))
    with n have "s \<noteq> stored_state" by blast
    with m t show ?thesis by simp
  qed
qed

text \<open>
  An OAuth 1.0a callback that resolves to a state at all resolves to a pending state of
  platform \<open>twitter\<close> (the keys of \<open>active_states\<close>, a dictionary, are distinct).
\<close>

lemma oauth1_callback_resolves_twitter:
  assumes "distinct (map fst (active_states self))"
      and "truthy oauth_token" and "truthy oauth_verifier"
      and "resolve_callback self code state oauth_token oauth_verifier = Inr (st, c)"
  shows "\<exists>s data. st = Some s \<and> map_of (active_states self) s = Some data
            \<and> st_platform data = ''twitter''"
proof (cases "find_twitter_state (active_states self)")
  case None
  with assms(2-4) show ?thesis by (simp add: resolve_callback_def)
next
  case (Some s)
  with assms(2-4) have "st = Some s"
    by (simp add: resolve_callback_def split: if_splits)
  with find_twitter_state_Some [OF assms(1) Some] show ?thesis by simp
qed

lemma complete_oauth_twitter_state:
  assumes "resolve_callback self code state oauth_token oauth_verifier = Inr (Some s, c)"
      and "map_of (active_states self) s = Some data"
      and "st_platform data = ''twitter''"
  shows "complete_oauth e self d code state oauth_token oauth_verifier
           = (Inl (Exception ''Invalid state or expired request token''),
              self\<lparr> active_states := AList.delete s (active_states self) \<rparr>, d)"
  using assms
  by (simp add: complete_oauth_def lookup_state_def get_oauth_handler_twitter
        exchange_and_profile_twitter)

text \<open>
  Claim C2. Every completion whose pending state belongs to Twitter fails in the token
  exchange: \<open>complete_oauth\<close> constructs a new handler, whose \<open>request_tokens\<close> is empty,
  so \<open>exchange_code_for_tokens\<close> raises at its first check. The state has been
  consumed by then; the table of connections is unchanged and no connection is returned.
\<close>

theorem twitter_completion_always_fails:
  assumes "resolve_callback self code state oauth_token oauth_verifier = Inr (Some s, c)"
      and "map_of (active_states self) s = Some data"
      and "st_platform data = ''twitter''"
  shows "complete_oauth e self d code state oauth_token oauth_verifier
           = (Inl (Exception ''Invalid state or expired request token''),
              self\<lparr> active_states := AList.delete s (active_states self) \<rparr>, d)"
  using assms by (rule complete_oauth_twitter_state)

text \<open>The sample run: two Twitter initiations.\<close>


lemma initiate_A:
  "initiate_oauth env_A empty_service ''twitter'' ''userA'' ''https://app/cb''
     = (Inr ''https://api.x.com/oauth/authenticate?oauth_token=tA'',
        \<lparr> active_states =
            [(''SA'', \<lparr> st_user_id = ''userA'', st_platform = ''twitter'',
                        st_redirect_uri = ''https://app/cb'', st_created_at = 100 \<rparr>)] \<rparr>)"
  by code_simp

lemma initiate_B:
  "initiate_oauth env_B
       \<lparr> active_states =
            [(''SA'', \<lparr> st_user_id = ''userA'', st_platform = ''twitter'',
                        st_redirect_uri = ''https://app/cb'', st_created_at = 100 \<rparr>)] \<rparr>
       ''twitter'' ''userB'' ''https://app/cb''
     = (Inr ''https://api.x.com/oauth/authenticate?oauth_token=tB'',
        \<lparr> active_states =
         [(''SA'', \<lparr> st_user_id = ''userA'', st_platform = ''twitter'',
                     st_redirect_uri = ''https://app/cb'', st_created_at = 100 \<rparr>),
          (''SB'', \<lparr> st_user_id = ''userB'', st_platform = ''twitter'',
                     st_redirect_uri = ''https://app/cb'', st_created_at = 101 \<rparr>)] \<rparr>)"
  by code_simp

lemma two_pending_eq:
  "two_pending =
     \<lparr> active_states =
         [(''SA'', \<lparr> st_user_id = ''userA'', st_platform = ''twitter'',
                     st_redirect_uri = ''https://app/cb'', st_created_at = 100 \<rparr>),
          (''SB'', \<lparr> st_user_id = ''userB'', st_platform = ''twitter'',
                     st_redirect_uri = ''https://app/cb'', st_created_at = 101 \<rparr>)] \<rparr>"
  by (simp only: two_pending_def initiate_A initiate_B snd_conv)

lemma two_pending_resolve:
  "resolve_callback two_pending None None (Some tok) (Some ''verifier'')
     = (if tok = [] then Inr (None, None) else Inr (Some ''SA'', Some ''verifier''))"
  by (simp add: two_pending_eq resolve_callback_def truthy_def)

lemma two_pending_SA:
  "map_of (active_states two_pending) ''SA''
     = Some \<lparr> st_user_id = ''userA'', st_platform = ''twitter'',
              st_redirect_uri = ''https://app/cb'', st_created_at = 100 \<rparr>"
  by (simp add: two_pending_eq)

lemma two_pending_delete_SA:
  "two_pending\<lparr> active_states := AList.delete ''SA'' (active_states two_pending) \<rparr>
     = \<lparr> active_states =
          [(''SB'', \<lparr> st_user_id = ''userB'', st_platform = ''twitter'',
                      st_redirect_uri = ''https://app/cb'', st_created_at = 101 \<rparr>)] \<rparr>"
  by (simp add: two_pending_eq AList.delete_eq)

theorem twitter_completion_always_fails_witness:
  "resolve_callback two_pending None None (Some ''tA'') (Some ''verifier'')
      = Inr (Some ''SA'', Some ''verifier'')
   \<and> map_of (active_states two_pending) ''SA''
      = Some \<lparr> st_user_id = ''userA'', st_platform = ''twitter'',
               st_redirect_uri = ''https://app/cb'', st_created_at = 100 \<rparr>
   \<and> complete_oauth env_A two_pending [] None None (Some ''tA'') (Some ''verifier'')
      = (Inl (Exception ''Invalid state or expired request token''),
         two_pending\<lparr> active_states := AList.delete ''SA'' (active_states two_pending) \<rparr>, [])"
proof -
  have r: "resolve_callback two_pending None None (Some ''tA'') (Some ''verifier'')
             = Inr (Some ''SA'', Some ''verifier'')"
    by (simp add: two_pending_resolve)
  have t: "st_platform \<lparr> st_user_id = ''userA'', st_platform = ''twitter'',
               st_redirect_uri = ''https://app/cb'', st_created_at = 100 \<rparr> = ''twitter''"
    by simp
  show ?thesis
    using r two_pending_SA twitter_completion_always_fails [OF r two_pending_SA t, of env_A "[]"]
    by (simp only: simp_thms)
qed

text \<open>
  Claim C3 asks that, with two Twitter initiations pending for different users, a
  callback is matched to the state of the \<open>oauth_token\<close> it carries and leaves the
  other user's state alone. In the sample run user B's callback (\<open>oauth_token = tB\<close>)
  is matched to user A's state \<open>SA\<close>, the first pending Twitter state, and consumes
  it; B's own state \<open>SB\<close> stays pending.
\<close>

theorem oauth1_callback_consumes_first_pending_state:
  "initiate_oauth env_A empty_service ''twitter'' ''userA'' ''https://app/cb''
     = (Inr ''https://api.x.com/oauth/authenticate?oauth_token=tA'',
        \<lparr> active_states =
            [(''SA'', \<lparr> st_user_id = ''userA'', st_platform = ''twitter'',
                        st_redirect_uri = ''https://app/cb'', st_created_at = 100 \<rparr>)] \<rparr>)
   \<and> fst (initiate_oauth env_B
            (snd (initiate_oauth env_A empty_service ''twitter'' ''userA'' ''https://app/cb''))
            ''twitter'' ''userB'' ''https://app/cb'')
     = Inr ''https://api.x.com/oauth/authenticate?oauth_token=tB''
   \<and> map fst (active_states two_pending) = [''SA'', ''SB'']
   \<and> complete_oauth env_B two_pending [] None None (Some ''tB'') (Some ''verifier'')
     = (Inl (Exception ''Invalid state or expired request token''),
        \<lparr> active_states =
            [(''SB'', \<lparr> st_user_id = ''userB'', st_platform = ''twitter'',
                        st_redirect_uri = ''https://app/cb'', st_created_at = 101 \<rparr>)] \<rparr>,
        [])"
proof -
  have r: "resolve_callback two_pending None None (Some ''tB'') (Some ''verifier'')
             = Inr (Some ''SA'', Some ''verifier'')"
    by (simp add: two_pending_resolve)
  have t: "st_platform \<lparr> st_user_id = ''userA'', st_platform = ''twitter'',
               st_redirect_uri = ''https://app/cb'', st_created_at = 100 \<rparr> = ''twitter''"
    by simp
  have c: "complete_oauth env_B two_pending [] None None (Some ''tB'') (Some ''verifier'')
     = (Inl (Exception ''Invalid state or expired request token''),
        \<lparr> active_states =
            [(''SB'', \<lparr> st_user_id = ''userB'', st_platform = ''twitter'',
                        st_redirect_uri = ''https://app/cb'', st_created_at = 101 \<rparr>)] \<rparr>,
        [])"
    using complete_oauth_twitter_state [OF r two_pending_SA t, of env_B "[]"]
    by (simp only: two_pending_delete_SA)
  have k: "map fst (active_states two_pending) = [''SA'', ''SB'']"
    by (simp add: two_pending_eq)
  show ?thesis
    by (simp only: initiate_A initiate_B snd_conv fst_conv c k simp_thms)
qed

text \<open>The sample run: a LinkedIn flow.\<close>


lemma linkedin_pending_eq:
  "linkedin_pending =
     \<lparr> active_states =
         [(''SA'', \<lparr> st_user_id = ''userA'', st_platform = ''linkedin'',
                     st_redirect_uri = ''https://app/cb'', st_created_at = 100 \<rparr>)] \<rparr>"
  by code_simp

lemma complete_linkedin_first:
  "complete_oauth env_A
       \<lparr> active_states =
         [(''SA'', \<lparr> st_user_id = ''userA'', st_platform = ''linkedin'',
                     st_redirect_uri = ''https://app/cb'', st_created_at = 100 \<rparr>)] \<rparr>
       [] (Some ''code'') (Some ''SA'') None None
     = (Inr (sample_row 100), empty_service, [sample_row 100])"
  by code_simp

lemma complete_linkedin_late:
  "complete_oauth env_late
       \<lparr> active_states =
         [(''SA'', \<lparr> st_user_id = ''userA'', st_platform = ''linkedin'',
                     st_redirect_uri = ''https://app/cb'', st_created_at = 100 \<rparr>)] \<rparr>
       [] (Some ''code'') (Some ''SA'') None None
     = (Inr (sample_row 1000000100), empty_service, [sample_row 1000000100])"
  by code_simp

text \<open>
  Claim C8 asks that \<open>initiate_oauth\<close> with a platform outside the supported set
  fails and leaves the pending states unchanged. The call with the platform
  \<open>myspace\<close> does fail with \<open>Unsupported platform\<close>, but the state record was
  stored before the platform was looked up and stays in \<open>active_states\<close>.
\<close>

theorem initiate_unsupported_platform_stores_state:
  "initiate_oauth env_A empty_service ''myspace'' ''userA'' ''https://app/cb''
     = (Inl (ValueError ''Unsupported platform: myspace''),
        \<lparr> active_states =
            [(''SA'', \<lparr> st_user_id = ''userA'', st_platform = ''myspace'',
                        st_redirect_uri = ''https://app/cb'', st_created_at = 100 \<rparr>)] \<rparr>)"
  by code_simp

lemma initiate_oauth_unsupported:
  "map_of oauth_handlers platform = None \<Longrightarrow>
     initiate_oauth e self platform user_id redirect
       = (Inl (ValueError (''Unsupported platform: '' @ platform)),
          self\<lparr> active_states :=
                 AList.update (token_urlsafe e)
                   \<lparr> st_user_id = user_id, st_platform = platform,
                     st_redirect_uri = redirect, st_created_at = utcnow e \<rparr>
                   (active_states self) \<rparr>)"
  by (simp add: initiate_oauth_def get_oauth_handler_def)

lemma map_of_delete_same: "map_of (AList.delete k al) k = None"
  by (simp add: AList.delete_conv)

lemma resolve_callback_oauth2:
  "\<not> (truthy oauth_token \<and> truthy oauth_verifier) \<Longrightarrow>
     resolve_callback self code state oauth_token oauth_verifier = Inr (state, code)"
  by (auto simp: resolve_callback_def)

text \<open>A state that is not pending is refused, and nothing changes.\<close>

lemma complete_oauth_unknown_state:
  assumes "\<not> (truthy oauth_token \<and> truthy oauth_verifier)"
      and "map_of (active_states self) s = None"
  shows "complete_oauth e self d code (Some s) oauth_token oauth_verifier
           = (Inl (ValueError ''Invalid or expired state parameter''), self, d)"
  using assms(2) resolve_callback_oauth2 [OF assms(1)]
  by (simp add: complete_oauth_def lookup_state_def)

text \<open>Whatever its outcome, a completion leaves the state it was given not pending.\<close>

lemma complete_oauth_consumes:
  assumes "\<not> (truthy oauth_token \<and> truthy oauth_verifier)"
      and "complete_oauth e self d code (Some s) oauth_token oauth_verifier = (r, self', d')"
  shows "map_of (active_states self') s = None"
proof (cases "map_of (active_states self) s")
  case None
  with assms complete_oauth_unknown_state [OF assms(1) None, of e d code]
  show ?thesis by simp
next
  case (Some data)
  then have "self' = self\<lparr> active_states := AList.delete s (active_states self) \<rparr>"
    using assms(2) resolve_callback_oauth2 [OF assms(1), of self code "Some s"]
    by (auto simp: complete_oauth_def lookup_state_def Let_def
          split: sum.splits option.splits prod.splits)
  then show ?thesis by (simp add: map_of_delete_same)
qed

text \<open>
  A callback that carries both \<open>oauth_token\<close> and \<open>oauth_verifier\<close> is handled without
  looking at its \<open>state\<close> or its \<open>code\<close>.
\<close>

lemma oauth1_callback_ignores_state:
  assumes "truthy oauth_token" and "truthy oauth_verifier"
  shows "complete_oauth e self d code state oauth_token oauth_verifier
           = complete_oauth e self d code' state' oauth_token oauth_verifier"
  using assms by (simp add: complete_oauth_def resolve_callback_def)

text \<open>
  Claim C4, as the code has it. After a completion that presented the state \<open>s\<close> (a
  callback that does not carry both \<open>oauth_token\<close> and \<open>oauth_verifier\<close>) and
  succeeded, every later completion that presents \<open>s\<close>, whatever its code and its
  environment, and that again does not carry both \<open>oauth_token\<close> and
  \<open>oauth_verifier\<close>, fails and leaves the service and the table of connections as
  they are: no second row, no token rewritten. The error is the one for a state that
  was never issued; the code keeps no record of consumed states.
\<close>

theorem second_complete_same_state:
  assumes "\<not> (truthy oauth_token \<and> truthy oauth_verifier)"
      and "complete_oauth e self d code (Some s) oauth_token oauth_verifier = (Inr c, self', d')"
      and "\<not> (truthy oauth_token' \<and> truthy oauth_verifier')"
  shows "complete_oauth e' self' d' code' (Some s) oauth_token' oauth_verifier'
           = (Inl (ValueError ''Invalid or expired state parameter''), self', d')"
  using complete_oauth_unknown_state [OF assms(3) complete_oauth_consumes [OF assms(1,2)]] .

lemma not_oauth1_None: "\<not> (truthy None \<and> truthy None)"
  by (simp add: truthy_def)

lemma not_oauth1_token_only: "\<not> (truthy (Some ''tA'') \<and> truthy None)"
  by (simp add: truthy_def)

lemma complete_linkedin_pending:
  "complete_oauth env_A linkedin_pending [] (Some ''code'') (Some ''SA'') None None
     = (Inr (sample_row 100), empty_service, [sample_row 100])"
  by (simp only: linkedin_pending_eq complete_linkedin_first)

theorem second_complete_same_state_witness:
  "\<not> (truthy None \<and> truthy None)
   \<and> complete_oauth env_A linkedin_pending [] (Some ''code'') (Some ''SA'') None None
       = (Inr (sample_row 100), empty_service, [sample_row 100])
   \<and> \<not> (truthy (Some ''tA'') \<and> truthy None)
   \<and> complete_oauth env_late empty_service [sample_row 100] (Some ''code2'') (Some ''SA'')
        (Some ''tA'') None
       = (Inl (ValueError ''Invalid or expired state parameter''),
          empty_service, [sample_row 100])"
  using not_oauth1_None complete_linkedin_pending not_oauth1_token_only
    second_complete_same_state [OF not_oauth1_None complete_linkedin_pending
      not_oauth1_token_only, of env_late "Some ''code2''"]
  by (simp only: simp_thms)

text \<open>
  The claim as stated asks for an error of its own for a consumed state. In the sample
  run the repeated completion with \<open>SA\<close> and a completion with a state that was never
  issued return the same error.
\<close>

theorem second_complete_same_error_counterexample:
  "complete_oauth env_A linkedin_pending [] (Some ''code'') (Some ''SA'') None None
       = (Inr (sample_row 100), empty_service, [sample_row 100])
   \<and> complete_oauth env_A empty_service [sample_row 100] (Some ''code'') (Some ''SA'') None None
       = (Inl (ValueError ''Invalid or expired state parameter''),
          empty_service, [sample_row 100])
   \<and> complete_oauth env_A empty_service [sample_row 100] (Some ''code'')
         (Some ''never-issued'') None None
       = (Inl (ValueError ''Invalid or expired state parameter''),
          empty_service, [sample_row 100])"
proof -
  have n: "map_of (active_states empty_service) s = None" for s
    by (simp add: empty_service_def)
  show ?thesis
    using complete_linkedin_pending
      complete_oauth_unknown_state [OF not_oauth1_None n, of env_A "[sample_row 100]"]
    by (simp only: simp_thms)
qed

text \<open>The creation time of a pending state is stored and never read.\<close>


lemma find_twitter_state_created_at:
  "find_twitter_state (map (\<lambda>(k, v). (k, v\<lparr> st_created_at := f k \<rparr>)) al)
     = find_twitter_state al"
  by (induction al rule: find_twitter_state.induct) simp_all

lemma map_of_created_at:
  "map_of (map (\<lambda>(k, v). (k, v\<lparr> st_created_at := f k \<rparr>)) al) s
     = map_option (\<lambda>v. v\<lparr> st_created_at := f s \<rparr>) (map_of al s)"
  by (induction al) auto

lemma delete_created_at:
  "AList.delete s (map (\<lambda>(k, v). (k, v\<lparr> st_created_at := f k \<rparr>)) al)
     = map (\<lambda>(k, v). (k, v\<lparr> st_created_at := f k \<rparr>)) (AList.delete s al)"
  by (induction al) auto

lemma resolve_callback_created_at:
  "resolve_callback (with_created_at f self) code state oauth_token oauth_verifier
     = resolve_callback self code state oauth_token oauth_verifier"
  by (simp add: resolve_callback_def with_created_at_def find_twitter_state_created_at)

lemma lookup_state_created_at:
  "lookup_state (with_created_at f self) state
     = map_option (\<lambda>(s, v). (s, v\<lparr> st_created_at := f s \<rparr>)) (lookup_state self state)"
  by (simp add: lookup_state_def with_created_at_def map_of_created_at
        split: option.splits)

lemma with_created_at_delete:
  "with_created_at f self\<lparr> active_states := AList.delete s (active_states (with_created_at f self)) \<rparr>
     = with_created_at f (self\<lparr> active_states := AList.delete s (active_states self) \<rparr>)"
  by (simp add: with_created_at_def delete_created_at)

text \<open>
  Claim C10, as the code has it. The age of a pending state is never looked at:
  \<open>complete_oauth\<close> gives the same result, and leaves the same table and the same
  pending states, whatever the creation times of the pending states are. So a
  completion that succeeds for a state succeeds in the same way however old the state
  is.
\<close>

theorem complete_oauth_ignores_age:
  "complete_oauth e (with_created_at f self) d code state oauth_token oauth_verifier
     = (case complete_oauth e self d code state oauth_token oauth_verifier of
          (r, self', d') \<Rightarrow> (r, with_created_at f self', d'))"
  by (simp add: complete_oauth_def resolve_callback_created_at lookup_state_created_at
        with_created_at_delete Let_def
        split: sum.splits option.splits prod.splits)


lemma complete_linkedin_pending_late:
  "complete_oauth env_late linkedin_pending [] (Some ''code'') (Some ''SA'') None None
     = (Inr (sample_row 1000000100), empty_service, [sample_row 1000000100])"
  by (simp only: linkedin_pending_eq complete_linkedin_late)

theorem complete_oauth_ignores_age_witness:
  "complete_oauth env_late (with_created_at (\<lambda>k. 0) linkedin_pending) []
       (Some ''code'') (Some ''SA'') None None
     = (Inr (sample_row 1000000100), with_created_at (\<lambda>k. 0) empty_service,
        [sample_row 1000000100])"
  using complete_oauth_ignores_age [of env_late "\<lambda>k. 0" linkedin_pending "[]"
          "Some ''code''" "Some ''SA''" None None]
  by (simp add: complete_linkedin_pending_late)

text \<open>
  The claim as stated asks that a state older than its time to live is refused. In the
  sample run the state \<open>SA\<close> is created at time 100 and completed at time
  1000000100, a billion seconds later, and the completion succeeds.
\<close>

theorem expired_state_completes_counterexample:
  "map_of (active_states linkedin_pending) ''SA''
     = Some \<lparr> st_user_id = ''userA'', st_platform = ''linkedin'',
              st_redirect_uri = ''https://app/cb'', st_created_at = 100 \<rparr>
   \<and> utcnow env_late = 1000000100
   \<and> complete_oauth env_late linkedin_pending [] (Some ''code'') (Some ''SA'') None None
     = (Inr (sample_row 1000000100), empty_service, [sample_row 1000000100])"
proof -
  have m: "map_of (active_states linkedin_pending) ''SA''
     = Some \<lparr> st_user_id = ''userA'', st_platform = ''linkedin'',
              st_redirect_uri = ''https://app/cb'', st_created_at = 100 \<rparr>"
    by (simp add: linkedin_pending_eq)
  have u: "utcnow env_late = 1000000100"
    by (simp add: env_late_def sample_env_def)
  show ?thesis
    using m u complete_linkedin_pending_late by (simp only: simp_thms)
qed

text \<open>
  Claim C9, as the code has it. Refreshing a Twitter connection fails and leaves every
  stored row, and so its encrypted tokens, as it was. The error is not one for a flow
  without refresh capability: a row without a refresh token (the only kind written for
  OAuth 1.0a tokens) is refused with \<open>ValueError('No refresh token available')\<close>,
  raised before the platform is looked at; a row with a refresh token fails with an
  \<open>AttributeError\<close> at the handler, which has no \<open>refresh_access_token\<close>.
\<close>

theorem refresh_twitter_connection_fails:
  assumes "filter (\<lambda>c. conn_id c = connection_id) d = [connection]"
      and "conn_platform connection = ''twitter''"
  shows "refresh_connection_token e d connection_id
           = (Inl (if truthy (conn_refresh_token connection)
                   then AttributeError ''refresh_access_token''
                   else ValueError ''No refresh token available''), d)"
  using assms
  by (simp add: refresh_connection_token_def scalar_one_or_none_def get_oauth_handler_twitter)

theorem refresh_twitter_connection_fails_witness:
  "filter (\<lambda>c. conn_id c = ''id7'') [sample_row 100, sample_twitter_row] = [sample_twitter_row]
   \<and> conn_platform sample_twitter_row = ''twitter''
   \<and> refresh_connection_token env_A [sample_row 100, sample_twitter_row] ''id7''
       = (Inl (ValueError ''No refresh token available''), [sample_row 100, sample_twitter_row])"
proof -
  have f: "filter (\<lambda>c. conn_id c = ''id7'') [sample_row 100, sample_twitter_row]
             = [sample_twitter_row]"
    by (simp add: sample_row_def sample_twitter_row_def)
  have p: "conn_platform sample_twitter_row = ''twitter''"
    by (simp add: sample_twitter_row_def)
  have t: "\<not> truthy (conn_refresh_token sample_twitter_row)"
    by (simp add: sample_twitter_row_def truthy_def)
  show ?thesis
    using f p t refresh_twitter_connection_fails [OF f p, of env_A]
    by (simp only: simp_thms if_False)
qed

text \<open>
  The claim as stated asks for the error \<open>UnsupportedOperation\<close>, raised because the
  platform's flow cannot refresh. In the sample run the Twitter row and a LinkedIn row
  that has lost its refresh token are refused with the same \<open>ValueError\<close>, and the
  Twitter row given a refresh token fails with an \<open>AttributeError\<close>.
\<close>

theorem refresh_error_ignores_platform_counterexample:
  "conn_platform sample_twitter_row = ''twitter''
   \<and> refresh_connection_token env_A [sample_twitter_row] ''id7''
       = (Inl (ValueError ''No refresh token available''), [sample_twitter_row])
   \<and> conn_platform ((sample_row 100)\<lparr> conn_refresh_token := None \<rparr>) = ''linkedin''
   \<and> refresh_connection_token env_A [(sample_row 100)\<lparr> conn_refresh_token := None \<rparr>] ''id1''
       = (Inl (ValueError ''No refresh token available''),
          [(sample_row 100)\<lparr> conn_refresh_token := None \<rparr>])
   \<and> refresh_connection_token env_A
         [sample_twitter_row\<lparr> conn_refresh_token := Some ''gHJ0LXRBMw=='' \<rparr>] ''id7''
       = (Inl (AttributeError ''refresh_access_token''),
          [sample_twitter_row\<lparr> conn_refresh_token := Some ''gHJ0LXRBMw=='' \<rparr>])"
proof -
  have a: "conn_platform sample_twitter_row = ''twitter''"
    by (simp add: sample_twitter_row_def)
  have b: "refresh_connection_token env_A [sample_twitter_row] ''id7''
       = (Inl (ValueError ''No refresh token available''), [sample_twitter_row])"
    by (simp add: refresh_connection_token_def scalar_one_or_none_def sample_twitter_row_def
          truthy_def)
  have c: "conn_platform ((sample_row 100)\<lparr> conn_refresh_token := None \<rparr>) = ''linkedin''"
    by (simp add: sample_row_def)
  have d: "refresh_connection_token env_A [(sample_row 100)\<lparr> conn_refresh_token := None \<rparr>] ''id1''
       = (Inl (ValueError ''No refresh token available''),
          [(sample_row 100)\<lparr> conn_refresh_token := None \<rparr>])"
    by (simp add: refresh_connection_token_def scalar_one_or_none_def sample_row_def truthy_def)
  have e: "refresh_connection_token env_A
         [sample_twitter_row\<lparr> conn_refresh_token := Some ''gHJ0LXRBMw=='' \<rparr>] ''id7''
       = (Inl (AttributeError ''refresh_access_token''),
          [sample_twitter_row\<lparr> conn_refresh_token := Some ''gHJ0LXRBMw=='' \<rparr>])"
    by (simp add: refresh_connection_token_def scalar_one_or_none_def sample_twitter_row_def
          truthy_def get_oauth_handler_twitter)
  show ?thesis using a b c d e by (simp only: simp_thms)
qed

section \<open>One row per connection triple\<close>

lemma update_values_triple:
  "conn_user_id (update_values a r s x n c) = conn_user_id c"
  "conn_platform (update_values a r s x n c) = conn_platform c"
  "conn_platform_user_id (update_values a r s x n c) = conn_platform_user_id c"
  "conn_id (update_values a r s x n c) = conn_id c"
  by (simp_all add: update_values_def)

lemma triple_count_map_update:
  "triple_count (map (\<lambda>c. if conn_id c = i then update_values a r s x n c else c) d) u p pu
     = triple_count d u p pu"
  by (induction d) (simp_all add: triple_count_def update_values_triple)

lemma triple_count_update:
  "triple_count (snd (update_connection_tokens e d connection tokens)) u p pu
     = triple_count d u p pu"
  by (simp add: update_connection_tokens_def triple_count_map_update
        split: sum.splits prod.splits)

lemma length_update:
  "length (snd (update_connection_tokens e d connection tokens)) = length d"
  by (simp add: update_connection_tokens_def split: sum.splits prod.splits)

lemma get_existing_None:
  "get_existing_connection d u p pu = Inr None \<Longrightarrow> triple_count d u p pu = 0"
  by (auto simp: get_existing_connection_def scalar_one_or_none_def triple_count_def
        split: list.splits)

lemma triple_count_create:
  assumes "create_new_connection e d user_id platform tokens user_profile = (r, d')"
  shows "triple_count d' u p pu
           \<le> (if u = user_id \<and> p = platform \<and> pu = platform_user_id user_profile
               then triple_count d u p pu + 1 else triple_count d u p pu)"
  using assms
  by (auto simp: create_new_connection_def triple_count_def Let_def
        split: if_splits sum.splits prod.splits)

text \<open>What a completion does to the table: nothing, an update in place, or one insert
  after the query for the triple found no row.\<close>

lemma complete_oauth_table:
  assumes "complete_oauth e self d code state oauth_token oauth_verifier = (r, self', d')"
  shows "d' = d
       \<or> (\<exists>existing tokens c. update_connection_tokens e d existing tokens = (c, d'))
       \<or> (\<exists>user_id platform tokens prof.
             get_existing_connection d user_id platform (platform_user_id prof) = Inr None
             \<and> create_new_connection e d user_id platform tokens prof = (r, d'))"
  using assms
  by (auto simp: complete_oauth_def Let_def split: sum.splits option.splits prod.splits)

lemma complete_oauth_triple_step:
  assumes inv: "\<forall>u p pu. triple_count d u p pu \<le> 1"
      and run: "complete_oauth e self d code state oauth_token oauth_verifier = (r, self', d')"
  shows "triple_count d' u p pu \<le> 1"
proof -
  have base: "triple_count d u p pu \<le> 1" using inv by blast
  from complete_oauth_table [OF run] consider
      (same) "d' = d"
    | (upd) existing tokens c where "update_connection_tokens e d existing tokens = (c, d')"
    | (ins) user_id platform tokens prof where
        "get_existing_connection d user_id platform (platform_user_id prof) = Inr None"
        "create_new_connection e d user_id platform tokens prof = (r, d')"
    by blast
  then show ?thesis
  proof cases
    case same
    with base show ?thesis by simp
  next
    case upd
    then have "d' = snd (update_connection_tokens e d existing tokens)" by simp
    with base show ?thesis by (simp only: triple_count_update)
  next
    case ins
    from get_existing_None [OF ins(1)]
    have zero: "triple_count d user_id platform (platform_user_id prof) = 0" .
    from triple_count_create [OF ins(2), of u p pu] base zero
    show ?thesis by (auto split: if_splits)
  qed
qed

lemma complete_all_triple:
  assumes "\<forall>u p pu. triple_count d u p pu \<le> 1"
  shows "triple_count (snd (complete_all cs self d)) u p pu \<le> 1"
  using assms
proof (induction cs arbitrary: self d)
  case Nil
  then show ?case by simp
next
  case (Cons c cs)
  obtain r self' d' where run:
    "complete_oauth (c_env c) self d (c_code c) (c_state c) (c_oauth_token c)
       (c_oauth_verifier c) = (r, self', d')"
    by (metis prod_cases3)
  have "\<forall>u p pu. triple_count d' u p pu \<le> 1"
    using complete_oauth_triple_step [OF Cons.prems run] by blast
  from Cons.IH [OF this] show ?case by (simp add: run)
qed

text \<open>With at most one row for the triple, the query finds the row that is there.\<close>

lemma filter_single:
  "length (filter P xs) \<le> 1 \<Longrightarrow> x \<in> set xs \<Longrightarrow> P x \<Longrightarrow> filter P xs = [x]"
proof -
  assume l: "length (filter P xs) \<le> 1" and m: "x \<in> set xs" and p: "P x"
  from m p have "x \<in> set (filter P xs)" by simp
  with l show ?thesis
    by (cases "filter P xs") (auto simp: Suc_le_eq)
qed

lemma get_existing_Some:
  assumes "triple_count d u p pu \<le> 1" and "existing \<in> set d"
      and "conn_user_id existing = u" and "conn_platform existing = p"
      and "conn_platform_user_id existing = pu"
  shows "get_existing_connection d u p pu = Inr (Some existing)"
  using filter_single [of "\<lambda>c. conn_user_id c = u \<and> conn_platform c = p
            \<and> conn_platform_user_id c = pu" d existing] assms
  by (simp add: get_existing_connection_def scalar_one_or_none_def triple_count_def)

lemma complete_oauth_update_row:
  assumes one: "triple_count d (st_user_id data) (st_platform data) (platform_user_id prof) \<le> 1"
      and r: "resolve_callback self code state oauth_token oauth_verifier = Inr (st, cd)"
      and l: "lookup_state self st = Some (s, data)"
      and h: "get_oauth_handler e (st_platform data) (st_redirect_uri data) = Inr h"
      and x: "exchange_and_profile e h (st_platform data) cd s oauth_token oauth_verifier
                = Inr (tokens, prof)"
      and ex: "existing \<in> set d" "conn_user_id existing = st_user_id data"
              "conn_platform existing = st_platform data"
              "conn_platform_user_id existing = platform_user_id prof"
      and a: "encrypt_token (token_encryption e) (access_token tokens) = Inr a"
      and rt: "encrypt_optional (token_encryption e) (refresh_token tokens) = Inr rtok"
      and sc: "encrypt_optional (token_encryption e) (oauth_token_secret tokens) = Inr sec"
  shows "complete_oauth e self d code state oauth_token oauth_verifier
           = (Inr (existing\<lparr> conn_access_token := a, conn_refresh_token := rtok,
                              conn_oauth_token_secret := sec,
                              conn_expires_at := expires_at tokens,
                              conn_is_active := True, conn_updated_at := utcnow e \<rparr>),
              self\<lparr> active_states := AList.delete s (active_states self) \<rparr>,
              map (\<lambda>c. if conn_id c = conn_id existing
                        then c\<lparr> conn_access_token := a, conn_refresh_token := rtok,
                                conn_oauth_token_secret := sec,
                                conn_expires_at := expires_at tokens,
                                conn_is_active := True, conn_updated_at := utcnow e \<rparr>
                        else c) d)"
proof -
  have g: "get_existing_connection d (st_user_id data) (st_platform data) (platform_user_id prof)
             = Inr (Some existing)"
    using get_existing_Some [OF one ex(1)] ex(2-4) by simp
  have c: "encrypted_columns e tokens = Inr (a, rtok, sec)"
    by (simp add: encrypted_columns_def a rt sc bind_err_def)
  show ?thesis
    by (simp add: complete_oauth_def r l h x g c update_connection_tokens_def
          update_values_def Let_def)
qed


text \<open>
  Claim C7. If no triple (user, platform, platform user) has more than one row, then
  after any sequence of completions, handled one after the other, no triple has more
  than one row; and a completion whose provider answers with the tokens \<open>tokens\<close>
  and the profile \<open>prof\<close>, for a triple that has the row \<open>existing\<close>, inserts
  nothing: it returns that row with the three token columns set to the encrypted new
  tokens, the new expiry, the active flag and the time of the call, and the table is
  the old one with exactly that change made to the row of that id. In the sample run
  the same LinkedIn member completes twice: the second completion rewrites the row of
  the first, and the table ends with one row.
\<close>

theorem completions_keep_triple_unique:
  assumes "\<forall>u p pu. triple_count d u p pu \<le> 1"
  shows "triple_count (snd (complete_all cs self d)) u p pu \<le> 1
       \<and> (resolve_callback self code state oauth_token oauth_verifier = Inr (st, cd)
          \<and> lookup_state self st = Some (s, data)
          \<and> get_oauth_handler e (st_platform data) (st_redirect_uri data) = Inr h
          \<and> exchange_and_profile e h (st_platform data) cd s oauth_token oauth_verifier
              = Inr (tokens, prof)
          \<and> existing \<in> set d
          \<and> conn_user_id existing = st_user_id data
          \<and> conn_platform existing = st_platform data
          \<and> conn_platform_user_id existing = platform_user_id prof
          \<and> encrypt_token (token_encryption e) (access_token tokens) = Inr a
          \<and> encrypt_optional (token_encryption e) (refresh_token tokens) = Inr rtok
          \<and> encrypt_optional (token_encryption e) (oauth_token_secret tokens) = Inr sec
          \<longrightarrow> complete_oauth e self d code state oauth_token oauth_verifier
                = (Inr (existing\<lparr> conn_access_token := a, conn_refresh_token := rtok,
                                   conn_oauth_token_secret := sec,
                                   conn_expires_at := expires_at tokens,
                                   conn_is_active := True, conn_updated_at := utcnow e \<rparr>),
                   self\<lparr> active_states := AList.delete s (active_states self) \<rparr>,
                   map (\<lambda>c. if conn_id c = conn_id existing
                             then c\<lparr> conn_access_token := a, conn_refresh_token := rtok,
                                     conn_oauth_token_secret := sec,
                                     conn_expires_at := expires_at tokens,
                                     conn_is_active := True, conn_updated_at := utcnow e \<rparr>
                             else c) d))"
proof (intro conjI impI)
  show "triple_count (snd (complete_all cs self d)) u p pu \<le> 1"
    using assms by (rule complete_all_triple)
next
  assume h: "resolve_callback self code state oauth_token oauth_verifier = Inr (st, cd)
          \<and> lookup_state self st = Some (s, data)
          \<and> get_oauth_handler e (st_platform data) (st_redirect_uri data) = Inr h
          \<and> exchange_and_profile e h (st_platform data) cd s oauth_token oauth_verifier
              = Inr (tokens, prof)
          \<and> existing \<in> set d
          \<and> conn_user_id existing = st_user_id data
          \<and> conn_platform existing = st_platform data
          \<and> conn_platform_user_id existing = platform_user_id prof
          \<and> encrypt_token (token_encryption e) (access_token tokens) = Inr a
          \<and> encrypt_optional (token_encryption e) (refresh_token tokens) = Inr rtok
          \<and> encrypt_optional (token_encryption e) (oauth_token_secret tokens) = Inr sec"
  have one: "triple_count d (st_user_id data) (st_platform data) (platform_user_id prof) \<le> 1"
    using assms by blast
  from h have r: "resolve_callback self code state oauth_token oauth_verifier = Inr (st, cd)"
    and l: "lookup_state self st = Some (s, data)"
    and g: "get_oauth_handler e (st_platform data) (st_redirect_uri data) = Inr h"
    and x: "exchange_and_profile e h (st_platform data) cd s oauth_token oauth_verifier
              = Inr (tokens, prof)"
    and ex: "existing \<in> set d" "conn_user_id existing = st_user_id data"
            "conn_platform existing = st_platform data"
            "conn_platform_user_id existing = platform_user_id prof"
    and en: "encrypt_token (token_encryption e) (access_token tokens) = Inr a"
            "encrypt_optional (token_encryption e) (refresh_token tokens) = Inr rtok"
            "encrypt_optional (token_encryption e) (oauth_token_secret tokens) = Inr sec"
    by simp_all
  show "complete_oauth e self d code state oauth_token oauth_verifier
                = (Inr (existing\<lparr> conn_access_token := a, conn_refresh_token := rtok,
                                   conn_oauth_token_secret := sec,
                                   conn_expires_at := expires_at tokens,
                                   conn_is_active := True, conn_updated_at := utcnow e \<rparr>),
                   self\<lparr> active_states := AList.delete s (active_states self) \<rparr>,
                   map (\<lambda>c. if conn_id c = conn_id existing
                             then c\<lparr> conn_access_token := a, conn_refresh_token := rtok,
                                     conn_oauth_token_secret := sec,
                                     conn_expires_at := expires_at tokens,
                                     conn_is_active := True, conn_updated_at := utcnow e \<rparr>
                             else c) d)"
    by (rule complete_oauth_update_row [OF one r l g x ex en])
qed

text \<open>The sample run: the second of two callbacks of the same LinkedIn member.\<close>

lemma twice_run:
  "complete_all twice_callbacks twice_pending [] = (empty_service, [updated_row])"
  by code_simp

lemma first_of_twice:
  "complete_oauth env_A twice_pending [] (Some ''code1'') (Some ''SA'') None None
     = (Inr (sample_row 100), once_completed, [sample_row 100])"
  by code_simp

lemma second_resolve:
  "resolve_callback once_completed (Some ''code2'') (Some ''SC'') None None
     = Inr (Some ''SC'', Some ''code2'')"
  by code_simp

lemma second_lookup:
  "lookup_state once_completed (Some ''SC'')
     = Some (''SC'', \<lparr> st_user_id = ''userA'', st_platform = ''linkedin'',
                       st_redirect_uri = ''https://app/cb'', st_created_at = 200 \<rparr>)"
  by code_simp

lemma second_handler:
  "get_oauth_handler env_C ''linkedin'' ''https://app/cb''
     = Inr (OAuth2Handler (LinkedInOAuthHandler_init env_C ''https://app/cb''))"
  by (simp add: get_oauth_handler_def oauth_handlers_def)

lemma second_exchange:
  "exchange_and_profile env_C
     (OAuth2Handler (LinkedInOAuthHandler_init env_C ''https://app/cb''))
     ''linkedin'' (Some ''code2'') ''SC'' None None = Inr (tokens_C, profile_m1)"
  by code_simp

lemma second_columns:
  "encrypt_token (token_encryption env_C) (access_token tokens_C) = Inr ''gGF0LXRDJA==''"
  "encrypt_optional (token_encryption env_C) (refresh_token tokens_C)
     = Inr (Some ''gHJ0LXRDNQ=='')"
  "encrypt_optional (token_encryption env_C) (oauth_token_secret tokens_C) = Inr None"
  by code_simp+

lemma sample_row_updated:
  "(sample_row 100)\<lparr> conn_access_token := ''gGF0LXRDJA=='',
       conn_refresh_token := Some ''gHJ0LXRDNQ=='', conn_oauth_token_secret := None,
       conn_expires_at := expires_at tokens_C, conn_is_active := True,
       conn_updated_at := utcnow env_C \<rparr> = updated_row"
  by code_simp

lemma sample_row_triple:
  "\<forall>u p pu. triple_count [sample_row 100] u p pu \<le> 1"
  by (simp add: triple_count_def)

theorem completions_keep_triple_unique_witness:
  "(\<forall>u p pu. triple_count [sample_row 100] u p pu \<le> 1)
   \<and> resolve_callback once_completed (Some ''code2'') (Some ''SC'') None None
       = Inr (Some ''SC'', Some ''code2'')
   \<and> lookup_state once_completed (Some ''SC'')
       = Some (''SC'', \<lparr> st_user_id = ''userA'', st_platform = ''linkedin'',
                         st_redirect_uri = ''https://app/cb'', st_created_at = 200 \<rparr>)
   \<and> get_oauth_handler env_C ''linkedin'' ''https://app/cb''
       = Inr (OAuth2Handler (LinkedInOAuthHandler_init env_C ''https://app/cb''))
   \<and> exchange_and_profile env_C
        (OAuth2Handler (LinkedInOAuthHandler_init env_C ''https://app/cb''))
        ''linkedin'' (Some ''code2'') ''SC'' None None = Inr (tokens_C, profile_m1)
   \<and> sample_row 100 \<in> set [sample_row 100]
   \<and> conn_user_id (sample_row 100) = ''userA''
   \<and> conn_platform (sample_row 100) = ''linkedin''
   \<and> conn_platform_user_id (sample_row 100) = platform_user_id profile_m1
   \<and> encrypt_token (token_encryption env_C) (access_token tokens_C) = Inr ''gGF0LXRDJA==''
   \<and> encrypt_optional (token_encryption env_C) (refresh_token tokens_C)
       = Inr (Some ''gHJ0LXRDNQ=='')
   \<and> encrypt_optional (token_encryption env_C) (oauth_token_secret tokens_C) = Inr None
   \<and> complete_oauth env_C once_completed [sample_row 100] (Some ''code2'') (Some ''SC'')
        None None
       = (Inr updated_row, empty_service, [updated_row])
   \<and> triple_count (snd (complete_all twice_callbacks twice_pending []))
        ''userA'' ''linkedin'' ''m1'' = 1"
proof -
  let ?data = "\<lparr> st_user_id = ''userA'', st_platform = ''linkedin'',
                  st_redirect_uri = ''https://app/cb'', st_created_at = 200 \<rparr>"
  have t: "conn_user_id (sample_row 100) = ''userA''"
          "conn_platform (sample_row 100) = ''linkedin''"
          "conn_platform_user_id (sample_row 100) = platform_user_id profile_m1"
    by (simp_all add: sample_row_def profile_m1_def)
  have m: "sample_row 100 \<in> set [sample_row 100]" by simp
  have del: "once_completed\<lparr> active_states := AList.delete ''SC'' (active_states once_completed) \<rparr>
               = empty_service"
    by (simp add: once_completed_def empty_service_def)
  have mp: "map (\<lambda>c. if conn_id c = conn_id (sample_row 100)
                      then c\<lparr> conn_access_token := ''gGF0LXRDJA=='',
                              conn_refresh_token := Some ''gHJ0LXRDNQ=='',
                              conn_oauth_token_secret := None,
                              conn_expires_at := expires_at tokens_C,
                              conn_is_active := True, conn_updated_at := utcnow env_C \<rparr>
                      else c) [sample_row 100] = [updated_row]"
    by (simp add: sample_row_updated)
  have o: "triple_count (snd (complete_all twice_callbacks twice_pending []))
        ''userA'' ''linkedin'' ''m1'' = 1"
    by (simp add: twice_run triple_count_def updated_row_def)
  have run: "complete_oauth env_C once_completed [sample_row 100] (Some ''code2'') (Some ''SC'')
        None None = (Inr updated_row, empty_service, [updated_row])"
    using completions_keep_triple_unique [where d = "[sample_row 100]" and cs = "[]"
           and self = once_completed and u = "''userA''" and p = "''linkedin''"
           and pu = "''m1''" and code = "Some ''code2''" and state = "Some ''SC''"
           and oauth_token = None and oauth_verifier = None and st = "Some ''SC''"
           and cd = "Some ''code2''" and s = "''SC''" and data = ?data and e = env_C
           and h = "OAuth2Handler (LinkedInOAuthHandler_init env_C ''https://app/cb'')"
           and tokens = tokens_C and prof = profile_m1 and existing = "sample_row 100"
           and a = "''gGF0LXRDJA==''" and rtok = "Some ''gHJ0LXRDNQ==''" and sec = None]
      sample_row_triple second_resolve second_lookup second_handler second_exchange second_columns t m
    by (simp add: sample_row_updated del mp)
  show ?thesis
    using sample_row_triple second_resolve second_lookup second_handler second_exchange
      second_columns t m run o
    by (simp only: simp_thms)
qed

section \<open>The OAuth 1.0a signature\<close>





























lemma sample_spec_base_string:
  "spec_base_string ''POST'' ''https://api.x.com/oauth/request_token''
     [(''oauth_callback'', ''https://app/cb''), (''oauth_consumer_key'', ''tw-key''),
      (''oauth_nonce'', ''0123456789abcdef0123456789abcdef''),
      (''oauth_signature_method'', ''HMAC-SHA1''), (''oauth_timestamp'', ''100''),
      (''oauth_version'', ''1.0'')]
   = ''POST&https%3A%2F%2Fapi.x.com%2Foauth%2Frequest_token&oauth_callback%3Dhttps%253A%252F%252Fapp%252Fcb%26oauth_consumer_key%3Dtw-key%26oauth_nonce%3D0123456789abcdef0123456789abcdef%26oauth_signature_method%3DHMAC-SHA1%26oauth_timestamp%3D100%26oauth_version%3D1.0''"
  by code_simp










end
